theory Spec2Isabelle
  imports Complex_Main "HOL-Library.Word" "HOL-Library.Log_Nat"
begin

unbundle bit_operations_syntax

section \<open>Coordinates, atoms and groups\<close>

text \<open>
  The C++ type \<^verbatim>\<open>double\<close> is modelled by \<^typ>\<open>real\<close>: arithmetic is exact, there is
  no rounding, no NaN and no infinity. The BLAS and LAPACK routines the code calls
  (\<^verbatim>\<open>dgemm_\<close>, \<^verbatim>\<open>dsyev_\<close>, \<^verbatim>\<open>dgesvd_\<close>) belong to an external library; the matrix product is
  written out from its documented meaning, the two solvers are parameters of the model.
\<close>

datatype GCoord = GCoord (gx: real) (gy: real) (gz: real)

definition gminus :: "GCoord \<Rightarrow> GCoord \<Rightarrow> GCoord" where
  "gminus p q = GCoord (gx p - gx q) (gy p - gy q) (gz p - gz q)"

definition gneg :: "GCoord \<Rightarrow> GCoord" where
  "gneg p = GCoord (- gx p) (- gy p) (- gz p)"

definition gdiv :: "GCoord \<Rightarrow> real \<Rightarrow> GCoord" where
  "gdiv p s = GCoord (gx p / s) (gy p / s) (gz p / s)"

record Atom =
  coords :: GCoord
  mass :: real

text \<open>
  An \<^verbatim>\<open>AtomicGroup\<close> holds shared pointers to its atoms, so two groups may share atoms.
  The atoms live in a store indexed by address; a group holds the list of its atoms' addresses
  and, when it is periodic, its box.
\<close>

type_synonym store = "nat \<Rightarrow> Atom"

record AtomicGroup =
  atoms :: "nat list"
  periodic_box :: "GCoord option"

datatype error =
  NumericalError string int
  | OutOfBoundsRead
  | CardinalityMismatch
  | DegenerateInput

text \<open>The coordinates of the members of a group, in the order of the group.\<close>

definition positions :: "store \<Rightarrow> AtomicGroup \<Rightarrow> GCoord list" where
  "positions st g = map (\<lambda>a. coords (st a)) (atoms g)"

text \<open>
  Modelled from the spec: \<^verbatim>\<open>AtomicGroup::centroid\<close> is not among the sources; it is the
  unweighted mean of all member coordinates.
\<close>

definition centroid :: "store \<Rightarrow> AtomicGroup \<Rightarrow> GCoord" where
  "centroid st g =
     gdiv (GCoord (\<Sum>p\<leftarrow>positions st g. gx p) (\<Sum>p\<leftarrow>positions st g. gy p)
                  (\<Sum>p\<leftarrow>positions st g. gz p))
          (real (length (atoms g)))"

text \<open>
  Modelled from the spec: \<^verbatim>\<open>AtomicGroup::centerOfMass\<close> is not among the sources; it is the
  mass-weighted mean of the member coordinates.
\<close>

definition centerOfMass :: "store \<Rightarrow> AtomicGroup \<Rightarrow> GCoord" where
  "centerOfMass st g =
     gdiv (GCoord (\<Sum>a\<leftarrow>atoms g. mass (st a) * gx (coords (st a)))
                  (\<Sum>a\<leftarrow>atoms g. mass (st a) * gy (coords (st a)))
                  (\<Sum>a\<leftarrow>atoms g. mass (st a) * gz (coords (st a))))
          (\<Sum>a\<leftarrow>atoms g. mass (st a))"

section \<open>The 4x4 transform\<close>

text \<open>
  Modelled from the spec: \<^verbatim>\<open>GMatrix\<close> and \<^verbatim>\<open>XForm\<close> are not among the sources. A
  \<^verbatim>\<open>GMatrix\<close> is a 4x4 homogeneous transform, stored row by row, \<^verbatim>\<open>Z(i,j)\<close> being row
  \<^verbatim>\<open>i\<close> and column \<^verbatim>\<open>j\<close> (the translation is the column 3, as the lines
  \<^verbatim>\<open>W(0,3) = yc.x()\<close> left in \<^verbatim>\<open>superposition\<close> show); a fresh one is the identity.
  An \<^verbatim>\<open>XForm\<close> is its current matrix; \<^verbatim>\<open>translate\<close> and \<^verbatim>\<open>concat\<close> multiply it on the
  right, so that composition is matrix multiplication in the order of the calls.
\<close>

type_synonym GMatrix = "real list"

definition gm_identity :: GMatrix where
  "gm_identity = [1, 0, 0, 0,  0, 1, 0, 0,  0, 0, 1, 0,  0, 0, 0, 1]"

definition gm_mul :: "GMatrix \<Rightarrow> GMatrix \<Rightarrow> GMatrix" where
  "gm_mul A B = [(\<Sum>k\<leftarrow>[0..<4]. A ! (i * 4 + k) * B ! (k * 4 + j)). i \<leftarrow> [0..<4], j \<leftarrow> [0..<4]]"

definition gm_translation :: "GCoord \<Rightarrow> GMatrix" where
  "gm_translation v = [1, 0, 0, gx v,  0, 1, 0, gy v,  0, 0, 1, gz v,  0, 0, 0, 1]"

text \<open>
  Modelled from the spec: applying a transform to a coordinate is the product with the
  homogeneous vector \<open>(x, y, z, 1)\<close>, divided by the resulting \<open>w\<close> when that is not 1.
\<close>

definition gm_apply :: "GMatrix \<Rightarrow> GCoord \<Rightarrow> GCoord" where
  "gm_apply M p =
     (let x = M ! 0 * gx p + M ! 1 * gy p + M ! 2 * gz p + M ! 3;
          y = M ! 4 * gx p + M ! 5 * gy p + M ! 6 * gz p + M ! 7;
          z = M ! 8 * gx p + M ! 9 * gy p + M ! 10 * gz p + M ! 11;
          w = M ! 12 * gx p + M ! 13 * gy p + M ! 14 * gz p + M ! 15
      in if w = 1 then GCoord x y z else GCoord (x / w) (y / w) (z / w))"

definition XForm_identity :: GMatrix where
  "XForm_identity = gm_identity"

definition XForm_translate :: "GCoord \<Rightarrow> GMatrix \<Rightarrow> GMatrix" where
  "XForm_translate v W = gm_mul W (gm_translation v)"

definition XForm_concat :: "GMatrix \<Rightarrow> GMatrix \<Rightarrow> GMatrix" where
  "XForm_concat Z W = gm_mul W Z"

text \<open>
  Modelled from the spec: \<^verbatim>\<open>coordsAsArray\<close>, \<^verbatim>\<open>transformedCoordsAsArray\<close> and
  \<^verbatim>\<open>applyTransform\<close> are not among the sources. The arrays are fresh copies holding
  \<open>x, y, z\<close> of each member in turn (a 3xN matrix stored by columns);
  \<^verbatim>\<open>applyTransform\<close> replaces every member's coordinate by its image.
\<close>

definition coordsAsArray :: "store \<Rightarrow> AtomicGroup \<Rightarrow> real list" where
  "coordsAsArray st g = concat (map (\<lambda>p. [gx p, gy p, gz p]) (positions st g))"

definition transformedCoordsAsArray :: "store \<Rightarrow> AtomicGroup \<Rightarrow> GMatrix \<Rightarrow> real list" where
  "transformedCoordsAsArray st g W =
     concat (map (\<lambda>p. let q = gm_apply W p in [gx q, gy q, gz q]) (positions st g))"

definition transformAtom :: "GMatrix \<Rightarrow> store \<Rightarrow> nat \<Rightarrow> store" where
  "transformAtom W s a = s(a := (s a)\<lparr>coords := gm_apply W (coords (s a))\<rparr>)"

definition applyTransform :: "store \<Rightarrow> AtomicGroup \<Rightarrow> GMatrix \<Rightarrow> store" where
  "applyTransform st g W = foldl (transformAtom W) st (atoms g)"

section \<open>The external linear algebra\<close>

text \<open>
  \<^verbatim>\<open>dgemm_\<close> with \<open>beta = 0\<close>, which is how every call of the code uses it: the result is
  the \<open>m\<close> x \<open>n\<close> matrix \<open>alpha * op(A) * op(B)\<close>, stored by columns with leading
  dimension \<open>m\<close>; \<open>op\<close> transposes when the flag is not \<open>N\<close>.
\<close>

definition dgemm ::
  "char \<Rightarrow> char \<Rightarrow> nat \<Rightarrow> nat \<Rightarrow> nat \<Rightarrow> real \<Rightarrow> real list \<Rightarrow> nat \<Rightarrow> real list \<Rightarrow> nat \<Rightarrow> real list" where
  "dgemm ta tb m n k alpha A lda B ldb =
     [alpha * (\<Sum>l\<leftarrow>[0..<k].
          (if ta = CHR ''N'' then A ! (l * lda + r) else A ! (r * lda + l)) *
          (if tb = CHR ''N'' then B ! (c * ldb + l) else B ! (l * ldb + c))).
      c \<leftarrow> [0..<n], r \<leftarrow> [0..<m]]"

text \<open>
  What \<^verbatim>\<open>dsyev_\<close> leaves behind: the status, the matrix overwritten by the eigenvectors
  (one per column) and the eigenvalues \<^verbatim>\<open>W\<close>. What \<^verbatim>\<open>dgesvd_\<close> leaves behind: the status,
  the singular values \<^verbatim>\<open>S\<close> and the factors \<^verbatim>\<open>U\<close> and \<^verbatim>\<open>Vt\<close>.
\<close>

record eigen_result =
  e_info :: int
  e_vectors :: "real list"
  e_values :: "real list"

record svd_result =
  s_info :: int
  s_S :: "real list"
  s_U :: "real list"
  s_Vt :: "real list"

section \<open>Moments of inertia and principal axes\<close>

text \<open>
  \<^verbatim>\<open>momentsOfInertia\<close> and \<^verbatim>\<open>principalAxes\<close> end with the same lines: the call of
  \<^verbatim>\<open>dsyev_\<close>, the two tests of its status and the packing of the four results. These lines
  are \<open>eigen_solve\<close> and \<open>eigen_results\<close>. The matrix \<^verbatim>\<open>I\<close> is stored by columns, so
  \<^verbatim>\<open>I(r,c)\<close> is the element \<open>c * 3 + r\<close>.
\<close>

definition inertia_step :: "store \<Rightarrow> GCoord \<Rightarrow> real list \<Rightarrow> nat \<Rightarrow> real list" where
  "inertia_step st c I a =
     (let u = gminus (coords (st a)) c;
          m = mass (st a)
      in I[0 := I ! 0 + m * (gy u * gy u + gz u * gz u),
           1 := I ! 1 + m * gx u * gy u,
           2 := I ! 2 + m * gx u * gz u,
           4 := I ! 4 + m * (gx u * gx u + gz u * gz u),
           5 := I ! 5 + m * gy u * gz u,
           8 := I ! 8 + m * (gx u * gx u + gy u * gy u)])"

definition inertia_symmetrise :: "real list \<Rightarrow> real list" where
  "inertia_symmetrise I =
     (let I1 = I[3 := - (I ! 1)];
          I2 = I1[1 := I1 ! 3];
          I3 = I2[6 := - (I2 ! 2)];
          I4 = I3[2 := I3 ! 6];
          I5 = I4[7 := - (I4 ! 5)]
      in I5[5 := I5 ! 7])"

definition inertiaTensor :: "store \<Rightarrow> AtomicGroup \<Rightarrow> real list" where
  "inertiaTensor st g =
     inertia_symmetrise (foldl (inertia_step st (centerOfMass st g)) (replicate 9 0) (atoms g))"

definition eigen_results :: "eigen_result \<Rightarrow> nat \<Rightarrow> GCoord list" where
  "eigen_results r n =
     (let V = e_vectors r;
          W = e_values r;
          results = foldl (\<lambda>res i. res[2 - i := GCoord (V ! (i * 3)) (V ! (i * 3 + 1)) (V ! (i * 3 + 2))])
                      (replicate 4 (GCoord 0 0 0)) [0..<3];
          c = gdiv (GCoord (W ! 2) (W ! 1) (W ! 0)) (real n)
      in results[3 := c])"

definition eigen_solve :: "(real list \<Rightarrow> eigen_result) \<Rightarrow> real list \<Rightarrow> nat \<Rightarrow> error + GCoord list" where
  "eigen_solve dsyev A n =
     (let r = dsyev A
      in if e_info r < 0 then Inl (NumericalError ''dsyev_ reported an argument error.'' (e_info r))
         else if e_info r > 0 then Inl (NumericalError ''dsyev_ failed to converge.'' (e_info r))
         else Inr (eigen_results r n))"

definition momentsOfInertia :: "(real list \<Rightarrow> eigen_result) \<Rightarrow> store \<Rightarrow> AtomicGroup \<Rightarrow> error + GCoord list" where
  "momentsOfInertia dsyev st g = eigen_solve dsyev (inertiaTensor st g) (length (atoms g))"

definition column_means :: "real list \<Rightarrow> nat \<Rightarrow> real list" where
  "column_means A n =
     (let M = foldl (\<lambda>M i. [M ! 0 + A ! (3 * i), M ! 1 + A ! (3 * i + 1), M ! 2 + A ! (3 * i + 2)])
                [0, 0, 0] [0..<n]
      in [M ! 0 / real n, M ! 1 / real n, M ! 2 / real n])"

definition subtract_mean :: "real list \<Rightarrow> real list \<Rightarrow> nat \<Rightarrow> real list" where
  "subtract_mean A M n =
     foldl (\<lambda>A i. A[3 * i := A ! (3 * i) - M ! 0,
                    3 * i + 1 := A ! (3 * i + 1) - M ! 1,
                    3 * i + 2 := A ! (3 * i + 2) - M ! 2]) A [0..<n]"

definition scatterMatrix :: "store \<Rightarrow> AtomicGroup \<Rightarrow> real list" where
  "scatterMatrix st g =
     (let n = length (atoms g);
          A = coordsAsArray st g;
          A' = subtract_mean A (column_means A n) n
      in dgemm CHR ''N'' CHR ''T'' 3 3 n 1 A' 3 A' 3)"

definition principalAxes :: "(real list \<Rightarrow> eigen_result) \<Rightarrow> store \<Rightarrow> AtomicGroup \<Rightarrow> error + GCoord list" where
  "principalAxes dsyev st g = eigen_solve dsyev (scatterMatrix st g) (length (atoms g))"

section \<open>Superposition\<close>

definition centeredCoords :: "store \<Rightarrow> AtomicGroup \<Rightarrow> real list" where
  "centeredCoords st g =
     transformedCoordsAsArray st g (XForm_translate (gneg (centroid st g)) XForm_identity)"

definition correlationMatrix :: "store \<Rightarrow> AtomicGroup \<Rightarrow> AtomicGroup \<Rightarrow> real list" where
  "correlationMatrix st g grp =
     dgemm CHR ''N'' CHR ''T'' 3 3 (length (atoms g)) 1 (centeredCoords st g) 3 (centeredCoords st grp) 3"

definition det3 :: "real list \<Rightarrow> real" where
  "det3 R = R ! 0 * R ! 4 * R ! 8 + R ! 3 * R ! 7 * R ! 2 + R ! 6 * R ! 1 * R ! 5
            - R ! 0 * R ! 7 * R ! 5 - R ! 3 * R ! 1 * R ! 8 - R ! 6 * R ! 4 * R ! 2"

definition adjustU :: "real \<Rightarrow> real list \<Rightarrow> real list" where
  "adjustU det U =
     (if det < 0
      then (let U1 = U[6 := - (U ! 6)];
                U2 = U1[7 := - (U1 ! 7)]
            in U2[8 := - (U2 ! 8)])
      else U)"

definition rotationGMatrix :: "real list \<Rightarrow> GMatrix" where
  "rotationGMatrix M =
     foldl (\<lambda>Z (i, j). Z[i * 4 + j := M ! (i * 3 + j)]) gm_identity
       [(i, j). i \<leftarrow> [0..<3], j \<leftarrow> [0..<3]]"

text \<open>
  The code does not compare the sizes of the two groups: \<^verbatim>\<open>dgemm_\<close> reads
  \<open>3 * size()\<close> entries of both arrays, so a shorter \<^verbatim>\<open>grp\<close> is read past its end.
  That read is the error \<open>OutOfBoundsRead\<close> of the model. The store is returned as it was
  received: \<^verbatim>\<open>superposition\<close> works on the arrays \<^verbatim>\<open>X\<close> and \<^verbatim>\<open>Y\<close> only.
\<close>

definition superposition ::
  "(real list \<Rightarrow> svd_result) \<Rightarrow> store \<Rightarrow> AtomicGroup \<Rightarrow> AtomicGroup \<Rightarrow> (error + GMatrix) \<times> store" where
  "superposition dgesvd st g grp =
     (let n = length (atoms g);
          xc = centroid st g;
          X = transformedCoordsAsArray st g (XForm_translate (gneg xc) XForm_identity);
          yc = centroid st grp;
          Y = transformedCoordsAsArray st grp (XForm_translate (gneg yc) XForm_identity)
      in if length Y < 3 * n then (Inl OutOfBoundsRead, st)
         else
           (let R = dgemm CHR ''N'' CHR ''T'' 3 3 n 1 X 3 Y 3;
                det = det3 R;
                r = dgesvd R
            in if s_info r \<noteq> 0
               then (Inl (NumericalError ''SVD in AtomicGroup::superposition returned an error'' (s_info r)), st)
               else
                 (let U = adjustU det (s_U r);
                      M = dgemm CHR ''N'' CHR ''N'' 3 3 3 1 U 3 (s_Vt r) 3;
                      Z = rotationGMatrix M;
                      W = XForm_translate (gneg xc) (XForm_concat Z (XForm_translate yc XForm_identity))
                  in (Inr W, st))))"

definition alignOnto ::
  "(real list \<Rightarrow> svd_result) \<Rightarrow> store \<Rightarrow> AtomicGroup \<Rightarrow> AtomicGroup \<Rightarrow> (error + GMatrix) \<times> store" where
  "alignOnto dgesvd st g grp =
     (case superposition dgesvd st g grp of
        (Inl e, st') \<Rightarrow> (Inl e, st')
      | (Inr M, st') \<Rightarrow> (Inr M, applyTransform st' g M))"

subsection \<open>The determinant in double arithmetic\<close>

text \<open>
  The test \<^verbatim>\<open>det < 0.0\<close> is the one place where the result of \<^verbatim>\<open>superposition\<close> depends
  on the rounding of double arithmetic discontinuously: elsewhere a rounding error moves
  the result a little, here it can change the branch that is taken. \<open>superposition_rounded\<close>
  is \<open>superposition\<close> with the rounding of the arithmetic of \<^verbatim>\<open>det\<close> made explicit: \<open>fl\<close>
  is applied to the result of every product, sum and difference of the expression, in
  the order in which it is evaluated (products and sums from left to right, no fused
  multiply-add). With \<open>fl\<close> the identity it is \<open>superposition\<close>.

  \<open>round_double\<close> is the rounding of IEEE 754 binary64: to the nearest number with 53
  significant bits, a tie to the one whose last bit is even. The exponent is not bounded
  (no overflow and no subnormal numbers). \<open>binade x\<close> is the exponent \<open>e\<close> with
  \<open>2\<^sup>e \<le> |x| < 2\<^sup>e\<^sup>+\<^sup>1\<close>.
\<close>

definition round_to_even :: "real \<Rightarrow> int" where
  "round_to_even x =
     (let f = \<lfloor>x\<rfloor>; d = x - of_int f
      in if d < 1 / 2 then f else if 1 / 2 < d then f + 1 else if even f then f else f + 1)"

definition binade :: "real \<Rightarrow> int" where
  "binade x =
     (if 1 \<le> \<bar>x\<bar> then bitlen \<lfloor>\<bar>x\<bar>\<rfloor> - 1 else - bitlen (\<lceil>1 / \<bar>x\<bar>\<rceil> - 1))"

definition pow2 :: "int \<Rightarrow> real" where
  "pow2 e = (if 0 \<le> e then 2 ^ nat e else 1 / 2 ^ nat (- e))"

definition round_double :: "real \<Rightarrow> real" where
  "round_double x =
     (if x = 0 then 0
      else (let e = binade x - 52 in of_int (round_to_even (x / pow2 e)) * pow2 e))"

definition det_rounded :: "(real \<Rightarrow> real) \<Rightarrow> real list \<Rightarrow> real" where
  "det_rounded fl R =
     fl (fl (fl (fl (fl (fl (fl (R ! 0 * R ! 4) * R ! 8) + fl (fl (R ! 3 * R ! 7) * R ! 2))
                     + fl (fl (R ! 6 * R ! 1) * R ! 5))
                 - fl (fl (R ! 0 * R ! 7) * R ! 5))
             - fl (fl (R ! 3 * R ! 1) * R ! 8))
         - fl (fl (R ! 6 * R ! 4) * R ! 2))"

definition superposition_rounded ::
  "(real \<Rightarrow> real) \<Rightarrow> (real list \<Rightarrow> svd_result) \<Rightarrow> store \<Rightarrow> AtomicGroup \<Rightarrow> AtomicGroup
     \<Rightarrow> (error + GMatrix) \<times> store" where
  "superposition_rounded fl dgesvd st g grp =
     (let n = length (atoms g);
          xc = centroid st g;
          X = transformedCoordsAsArray st g (XForm_translate (gneg xc) XForm_identity);
          yc = centroid st grp;
          Y = transformedCoordsAsArray st grp (XForm_translate (gneg yc) XForm_identity)
      in if length Y < 3 * n then (Inl OutOfBoundsRead, st)
         else
           (let R = dgemm CHR ''N'' CHR ''T'' 3 3 n 1 X 3 Y 3;
                det = det_rounded fl R;
                r = dgesvd R
            in if s_info r \<noteq> 0
               then (Inl (NumericalError ''SVD in AtomicGroup::superposition returned an error'' (s_info r)), st)
               else
                 (let U = adjustU det (s_U r);
                      M = dgemm CHR ''N'' CHR ''N'' 3 3 3 1 U 3 (s_Vt r) 3;
                      Z = rotationGMatrix M;
                      W = XForm_translate (gneg xc) (XForm_concat Z (XForm_translate yc XForm_identity))
                  in (Inr W, st))))"

subsection \<open>What the solvers promise\<close>

text \<open>
  3x3 matrices stored by columns, as LAPACK reads and writes them: the product, the
  transpose, the identity and a diagonal matrix.
\<close>

definition mm3 :: "real list \<Rightarrow> real list \<Rightarrow> real list" where
  "mm3 A B = dgemm CHR ''N'' CHR ''N'' 3 3 3 1 A 3 B 3"

definition tr3 :: "real list \<Rightarrow> real list" where
  "tr3 A = [A ! 0, A ! 3, A ! 6, A ! 1, A ! 4, A ! 7, A ! 2, A ! 5, A ! 8]"

definition id3 :: "real list" where
  "id3 = [1, 0, 0, 0, 1, 0, 0, 0, 1]"

definition diag3 :: "real list \<Rightarrow> real list" where
  "diag3 S = [S ! 0, 0, 0, 0, S ! 1, 0, 0, 0, S ! 2]"

definition orthogonal3 :: "real list \<Rightarrow> bool" where
  "orthogonal3 A \<longleftrightarrow> length A = 9 \<and> mm3 (tr3 A) A = id3 \<and> mm3 A (tr3 A) = id3"

text \<open>
  \<^verbatim>\<open>dgesvd_\<close> with status 0 has written a singular value decomposition of its argument:
  \<open>R = U * diag S * Vt\<close> with \<open>U\<close> and \<open>Vt\<close> orthogonal and the singular values
  non-negative in descending order.
\<close>

definition dgesvd_contract :: "real list \<Rightarrow> svd_result \<Rightarrow> bool" where
  "dgesvd_contract R r \<longleftrightarrow>
     (s_info r = 0 \<longrightarrow>
        length (s_S r) = 3 \<and> orthogonal3 (s_U r) \<and> orthogonal3 (s_Vt r) \<and>
        0 \<le> s_S r ! 2 \<and> s_S r ! 2 \<le> s_S r ! 1 \<and> s_S r ! 1 \<le> s_S r ! 0 \<and>
        mm3 (mm3 (s_U r) (diag3 (s_S r))) (s_Vt r) = R)"

text \<open>
  \<^verbatim>\<open>dsyev_\<close> is called with \<^verbatim>\<open>uplo = 'U'\<close>: it reads the upper triangle of its argument
  and decomposes the symmetric matrix with that triangle. With status 0 the eigenvalues
  are in ascending order and column \<open>i\<close> of the overwritten matrix is a unit eigenvector
  for the eigenvalue \<open>W i\<close>.
\<close>

definition upper_sym :: "real list \<Rightarrow> nat \<Rightarrow> nat \<Rightarrow> real" where
  "upper_sym A r c = (if r \<le> c then A ! (c * 3 + r) else A ! (r * 3 + c))"

definition is_eigenvector :: "real list \<Rightarrow> GCoord \<Rightarrow> real \<Rightarrow> bool" where
  "is_eigenvector A v lam \<longleftrightarrow>
     upper_sym A 0 0 * gx v + upper_sym A 0 1 * gy v + upper_sym A 0 2 * gz v = lam * gx v \<and>
     upper_sym A 1 0 * gx v + upper_sym A 1 1 * gy v + upper_sym A 1 2 * gz v = lam * gy v \<and>
     upper_sym A 2 0 * gx v + upper_sym A 2 1 * gy v + upper_sym A 2 2 * gz v = lam * gz v \<and>
     gx v * gx v + gy v * gy v + gz v * gz v = 1"

definition column3 :: "real list \<Rightarrow> nat \<Rightarrow> GCoord" where
  "column3 V i = GCoord (V ! (i * 3)) (V ! (i * 3 + 1)) (V ! (i * 3 + 2))"

definition dsyev_contract :: "real list \<Rightarrow> eigen_result \<Rightarrow> bool" where
  "dsyev_contract A r \<longleftrightarrow>
     (e_info r = 0 \<longrightarrow>
        length (e_vectors r) = 9 \<and> length (e_values r) = 3 \<and>
        e_values r ! 0 \<le> e_values r ! 1 \<and> e_values r ! 1 \<le> e_values r ! 2 \<and>
        is_eigenvector A (column3 (e_vectors r) 0) (e_values r ! 0) \<and>
        is_eigenvector A (column3 (e_vectors r) 1) (e_values r ! 1) \<and>
        is_eigenvector A (column3 (e_vectors r) 2) (e_values r ! 2))"

subsection \<open>Reading a transform\<close>

text \<open>
  The rotation block of a transform as a 3x3 matrix stored by columns, and its translation
  column.
\<close>

definition rotationPart :: "GMatrix \<Rightarrow> real list" where
  "rotationPart W = [W ! 0, W ! 4, W ! 8, W ! 1, W ! 5, W ! 9, W ! 2, W ! 6, W ! 10]"


text \<open>The 4x4 transform whose rotation block is the 3x3 matrix \<open>M\<close> (stored by columns).\<close>

definition embed3 :: "real list \<Rightarrow> GMatrix" where
  "embed3 M = [M ! 0, M ! 3, M ! 6, 0,  M ! 1, M ! 4, M ! 7, 0,  M ! 2, M ! 5, M ! 8, 0,  0, 0, 0, 1]"

text \<open>
  The composition in the words of the specification: identity, translate by the
  reference's centroid, concatenate the rotation \<open>M = U * Vt\<close> (after the correction of
  \<open>U\<close>), translate by the negative of the moving centroid.
\<close>

definition superposition_as_specified ::
  "(real list \<Rightarrow> svd_result) \<Rightarrow> store \<Rightarrow> AtomicGroup \<Rightarrow> AtomicGroup \<Rightarrow> GMatrix" where
  "superposition_as_specified dgesvd st g grp =
     (let R = correlationMatrix st g grp;
          r = dgesvd R;
          M = mm3 (adjustU (det3 R) (s_U r)) (s_Vt r)
      in XForm_translate (gneg (centroid st g))
           (XForm_concat (embed3 M) (XForm_translate (centroid st grp) XForm_identity)))"

section \<open>Example inputs\<close>

text \<open>
  Sixteen atoms of mass 1: a planar cross, a tetrahedron around the origin, the same
  tetrahedron turned by a quarter turn about \<open>z\<close> and moved by \<open>(1, 2, 3)\<close>, and its mirror
  image in the plane \<open>z = 0\<close>.
\<close>

definition ex_points :: "GCoord list" where
  "ex_points =
     [GCoord 1 0 0, GCoord (-1) 0 0, GCoord 0 2 0, GCoord 0 (-2) 0,
      GCoord 1 1 1, GCoord 1 (-1) (-1), GCoord (-1) 1 (-1), GCoord (-1) (-1) 1,
      GCoord 0 3 4, GCoord 2 3 2, GCoord 0 1 2, GCoord 2 1 4,
      GCoord 1 1 (-1), GCoord 1 (-1) 1, GCoord (-1) 1 1, GCoord (-1) (-1) (-1)]"

definition ex_store :: store where
  "ex_store a = \<lparr>coords = (if a < 16 then ex_points ! a else GCoord 0 0 0), mass = 1\<rparr>"

definition ex_cross :: AtomicGroup where
  "ex_cross = \<lparr>atoms = [0, 1, 2, 3], periodic_box = None\<rparr>"

definition ex_tetra :: AtomicGroup where
  "ex_tetra = \<lparr>atoms = [4, 5, 6, 7], periodic_box = None\<rparr>"

definition ex_turned :: AtomicGroup where
  "ex_turned = \<lparr>atoms = [8, 9, 10, 11], periodic_box = None\<rparr>"

definition ex_mirror :: AtomicGroup where
  "ex_mirror = \<lparr>atoms = [12, 13, 14, 15], periodic_box = None\<rparr>"

text \<open>
  Solver answers for these inputs. The inertia tensor of the cross is \<open>diag (8, 2, 10)\<close> and
  its scatter matrix \<open>diag (2, 8, 0)\<close>. The correlation matrix of the tetrahedron with its
  turned copy is four times the inverse quarter turn, with its mirror image
  \<open>diag (4, 4, -4)\<close>, with itself \<open>diag (4, 4, 4)\<close>.
\<close>

definition ex_eigen_inertia :: eigen_result where
  "ex_eigen_inertia = \<lparr>e_info = 0, e_vectors = [0, 1, 0,  1, 0, 0,  0, 0, 1], e_values = [2, 8, 10]\<rparr>"

definition ex_eigen_scatter :: eigen_result where
  "ex_eigen_scatter = \<lparr>e_info = 0, e_vectors = [0, 0, 1,  1, 0, 0,  0, 1, 0], e_values = [0, 2, 8]\<rparr>"

definition ex_eigen_failed :: eigen_result where
  "ex_eigen_failed = \<lparr>e_info = 2, e_vectors = replicate 9 0, e_values = replicate 3 0\<rparr>"

definition ex_svd_turned :: svd_result where
  "ex_svd_turned = \<lparr>s_info = 0, s_S = [4, 4, 4], s_U = [0, -1, 0,  1, 0, 0,  0, 0, 1], s_Vt = id3\<rparr>"

definition ex_svd_mirror :: svd_result where
  "ex_svd_mirror = \<lparr>s_info = 0, s_S = [4, 4, 4], s_U = [1, 0, 0,  0, 1, 0,  0, 0, -1], s_Vt = id3\<rparr>"



definition ex_svd_failed :: svd_result where
  "ex_svd_failed = \<lparr>s_info = 3, s_S = replicate 3 0, s_U = replicate 9 0, s_Vt = replicate 9 0\<rparr>"

definition ex_dsyev :: "real list \<Rightarrow> eigen_result" where
  "ex_dsyev A = (if A = [8, 0, 0, 0, 2, 0, 0, 0, 10] then ex_eigen_inertia else ex_eigen_scatter)"

text \<open>
  Four atoms in a plane through the origin, \<open>\<plusminus> 251 * (1, 2, 2)\<close> and
  \<open>\<plusminus> 251 * (2, 1, -2)\<close>, and a decomposition of their correlation matrix with
  themselves, \<open>U = V = 1/3 * [(1, 2, 2) (2, 1, -2) (2, -2, 1)]\<close> and
  \<open>S = (1134018, 1134018, 0)\<close>; the reflection in that plane.
\<close>

definition ex_plane_store :: store where
  "ex_plane_store a =
     \<lparr>coords = [GCoord 251 502 502, GCoord (-251) (-502) (-502),
                GCoord 502 251 (-502), GCoord (-502) (-251) 502] ! (a mod 4),
      mass = 1\<rparr>"

definition ex_plane :: AtomicGroup where
  "ex_plane = \<lparr>atoms = [0, 1, 2, 3], periodic_box = None\<rparr>"

definition ex_svd_plane :: svd_result where
  "ex_svd_plane =
     \<lparr>s_info = 0, s_S = [1134018, 1134018, 0],
      s_U = [1/3, 2/3, 2/3,  2/3, 1/3, -2/3,  2/3, -2/3, 1/3],
      s_Vt = [1/3, 2/3, 2/3,  2/3, 1/3, -2/3,  2/3, -2/3, 1/3]\<rparr>"

definition ex_plane_reflection :: GMatrix where
  "ex_plane_reflection =
     [1/9, 8/9, -4/9, 0,  8/9, 1/9, 4/9, 0,  -4/9, 4/9, 7/9, 0,  0, 0, 0, 1]"

section \<open>Properties as predicates\<close>

text \<open>
  The four results in descending order: the first three are the columns 2, 1, 0 of the
  solver's eigenvector matrix, unit eigenvectors of the decomposed matrix for the
  eigenvalues \<open>W 2 \<ge> W 1 \<ge> W 0\<close>, and the fourth holds these eigenvalues divided by the
  number of atoms.
\<close>

definition descending_eigen :: "real list \<Rightarrow> eigen_result \<Rightarrow> nat \<Rightarrow> GCoord list \<Rightarrow> bool" where
  "descending_eigen A r n res \<longleftrightarrow>
     length res = 4 \<and>
     res ! 0 = column3 (e_vectors r) 2 \<and>
     res ! 1 = column3 (e_vectors r) 1 \<and>
     res ! 2 = column3 (e_vectors r) 0 \<and>
     is_eigenvector A (res ! 0) (e_values r ! 2) \<and>
     is_eigenvector A (res ! 1) (e_values r ! 1) \<and>
     is_eigenvector A (res ! 2) (e_values r ! 0) \<and>
     e_values r ! 2 \<ge> e_values r ! 1 \<and> e_values r ! 1 \<ge> e_values r ! 0 \<and>
     res ! 3 = gdiv (GCoord (e_values r ! 2) (e_values r ! 1) (e_values r ! 0)) (real n)"

text \<open>
  A result raises the numerical error with the solver's status exactly when that status
  is not zero, and is a value exactly when it is zero.
\<close>

definition raises_iff_status :: "error + 'a \<Rightarrow> int \<Rightarrow> bool" where
  "raises_iff_status result status \<longleftrightarrow>
     ((\<exists>msg. result = Inl (NumericalError msg status)) \<longleftrightarrow> status \<noteq> 0) \<and>
     ((\<exists>v. result = Inr v) \<longleftrightarrow> status = 0) \<and>
     (\<forall>msg code. result = Inl (NumericalError msg code) \<longrightarrow> code = status)"

section \<open>The DCD writer\<close>

text \<open>
  The output stream: its bytes, the put position and the failure flag. A stream that has
  failed ignores writes and seeks, as a C++ stream does. Failures come from the environment
  (a full disk, a failed seek); no operation of the model raises the flag, it is part of
  the state a call starts from. A write past the end fills the gap with zero bytes.
\<close>

type_synonym byte = "8 word"

record ostream =
  contents :: "byte list"
  ppos :: nat
  failbit :: bool

definition os_write :: "byte list \<Rightarrow> ostream \<Rightarrow> ostream" where
  "os_write data s =
     (if failbit s then s
      else s\<lparr>contents := take (ppos s) (contents s @ replicate (ppos s - length (contents s)) 0)
                           @ data @ drop (ppos s + length data) (contents s),
             ppos := ppos s + length data\<rparr>)"

definition os_seekp :: "nat \<Rightarrow> ostream \<Rightarrow> ostream" where
  "os_seekp p s = (if failbit s then s else s\<lparr>ppos := p\<rparr>)"

definition os_seekp_end :: "ostream \<Rightarrow> ostream" where
  "os_seekp_end s = (if failbit s then s else s\<lparr>ppos := length (contents s)\<rparr>)"

text \<open>
  An \<^verbatim>\<open>unsigned int\<close> is written as its four bytes in the order of the machine, taken to be
  little-endian. The bit patterns of \<^verbatim>\<open>float\<close> and \<^verbatim>\<open>double\<close> values are parameters of the
  model.
\<close>

definition le32 :: "32 word \<Rightarrow> byte list" where
  "le32 v = [ucast v, ucast (drop_bit 8 v), ucast (drop_bit 16 v), ucast (drop_bit 24 v)]"

definition le64 :: "64 word \<Rightarrow> byte list" where
  "le64 v = map (\<lambda>i. ucast (drop_bit (8 * i) v)) [0..<8]"

record fp_encoding =
  float_bits :: "real \<Rightarrow> 32 word"
  double_bits :: "real \<Rightarrow> 64 word"

record DCDWriter =
  natoms :: "32 word"
  nsteps :: "32 word"
  timestep :: real
  current :: "32 word"
  has_box :: bool
  ofs :: ostream
  header_written :: bool
  titles :: "string list"

datatype dcd_exception = runtime_error string | logic_error string

definition default_unit_cell_angle :: real where
  "default_unit_cell_angle = 90"

definition writeF77Line :: "byte list \<Rightarrow> 32 word \<Rightarrow> ostream \<Rightarrow> ostream" where
  "writeF77Line data len s =
     os_write (le32 len) (os_write (take (unat len) data) (os_write (le32 len) s))"

definition fixStringSize :: "string \<Rightarrow> nat \<Rightarrow> string" where
  "fixStringSize s n =
     (if length s < n then s @ replicate (n - length s) CHR '' ''
      else if length s > n then take n s
      else s)"

definition header_icntrl :: "fp_encoding \<Rightarrow> DCDWriter \<Rightarrow> 32 word list" where
  "header_icntrl fp w =
     (replicate 21 0)
       [1 := nsteps w, 2 := 1, 3 := 1, 4 := nsteps w, 8 := natoms w * 3 - 6, 9 := 0,
        10 := float_bits fp (timestep w), 11 := of_bool (has_box w), 20 := 27]"

definition title_block :: "string list \<Rightarrow> byte list" where
  "title_block ts =
     le32 (of_nat (length ts)) @ concat (map (\<lambda>t. map of_char (fixStringSize t 80)) ts)"

definition writeHeader :: "fp_encoding \<Rightarrow> DCDWriter \<Rightarrow> DCDWriter" where
  "writeHeader fp w =
     (let dop = map of_char ''CORD'' @ drop 4 (concat (map le32 (header_icntrl fp w)));
          s1 = writeF77Line dop (21 * 4) (ofs w);
          size = 4 + 80 * of_nat (length (titles w));
          s2 = writeF77Line (title_block (titles w)) size s1;
          s3 = writeF77Line (le32 (natoms w)) 4 s2
      in w\<lparr>ofs := s3\<rparr>)"

definition writeBox :: "fp_encoding \<Rightarrow> GCoord \<Rightarrow> DCDWriter \<Rightarrow> DCDWriter" where
  "writeBox fp b w =
     (let xtal = [gx b, default_unit_cell_angle, gy b,
                  default_unit_cell_angle, default_unit_cell_angle, gz b]
      in w\<lparr>ofs := writeF77Line (concat (map (\<lambda>v. le64 (double_bits fp v)) xtal)) (6 * 8) (ofs w)\<rparr>)"

text \<open>
  \<^verbatim>\<open>writeFrame\<close> in three parts, in the order of the code: the tests on the group (which throw
  before anything is changed), the block that extends the header, and the records of the
  frame. A call returns the exception it threw, if any, and the writer as it is left.
\<close>

definition rewriteHeader :: "fp_encoding \<Rightarrow> DCDWriter \<Rightarrow> DCDWriter" where
  "rewriteHeader fp w =
     (let w1 = w\<lparr>ofs := os_seekp 0 (ofs w)\<rparr>;
          w2 = w1\<lparr>nsteps := nsteps w1 + 1\<rparr>;
          w3 = writeHeader fp w2
      in w3\<lparr>ofs := os_seekp_end (ofs w3)\<rparr>)"

definition coordinate_record ::
  "fp_encoding \<Rightarrow> store \<Rightarrow> AtomicGroup \<Rightarrow> (GCoord \<Rightarrow> real) \<Rightarrow> DCDWriter \<Rightarrow> DCDWriter" where
  "coordinate_record fp st grp sel w =
     (let data = map (\<lambda>i. float_bits fp (sel (coords (st (atoms grp ! i))))) [0..<unat (natoms w)]
      in w\<lparr>ofs := writeF77Line (concat (map le32 data)) (natoms w * 4) (ofs w)\<rparr>)"

definition writeRecords :: "fp_encoding \<Rightarrow> store \<Rightarrow> AtomicGroup \<Rightarrow> DCDWriter \<Rightarrow> DCDWriter" where
  "writeRecords fp st grp w =
     (let w1 = (if has_box w
                then (case periodic_box grp of Some b \<Rightarrow> writeBox fp b w | None \<Rightarrow> w)
                else w);
          w2 = coordinate_record fp st grp gx w1;
          w3 = coordinate_record fp st grp gy w2;
          w4 = coordinate_record fp st grp gz w3
      in w4\<lparr>current := current w4 + 1\<rparr>)"

definition writeFrame ::
  "fp_encoding \<Rightarrow> store \<Rightarrow> AtomicGroup \<Rightarrow> DCDWriter \<Rightarrow> dcd_exception option \<times> DCDWriter" where
  "writeFrame fp st grp w =
     (if natoms w \<noteq> 0 \<and> of_nat (length (atoms grp)) \<noteq> natoms w
      then (Some (runtime_error ''Frame group atom count mismatch''), w)
      else if natoms w \<noteq> 0 \<and> has_box w \<and> periodic_box grp = None
      then (Some (runtime_error
              ''Periodic box data was requested for the DCD but the passed frame is missing it''), w)
      else
        (let w1 = (if natoms w = 0
                   then w\<lparr>natoms := of_nat (length (atoms grp)), has_box := (periodic_box grp \<noteq> None)\<rparr>
                   else w)
         in if nsteps w1 \<le> current w1
            then (let w2 = rewriteHeader fp w1
                  in if failbit (ofs w2)
                     then (Some (runtime_error ''Error while re-writing DCD header''), w2)
                     else (None, writeRecords fp st grp w2))
            else (None, writeRecords fp st grp w1)))"

definition framesWritten :: "DCDWriter \<Rightarrow> 32 word" where
  "framesWritten w = current w"

text \<open>
  The writer that the constructor on a stream builds, here on an empty stream.
\<close>

definition new_DCDWriter :: DCDWriter where
  "new_DCDWriter =
     \<lparr>natoms = 0, nsteps = 0, timestep = 1 / 1000, current = 0, has_box = False,
      ofs = \<lparr>contents = [], ppos = 0, failbit = False\<rparr>,
      header_written = False, titles = [''AUTO GENERATED BY LOOS'']\<rparr>"

text \<open>The bytes of one Fortran record, of the header and of the records of one frame.\<close>

definition f77_bytes :: "byte list \<Rightarrow> 32 word \<Rightarrow> byte list" where
  "f77_bytes data len = le32 len @ take (unat len) data @ le32 len"

definition header_bytes :: "fp_encoding \<Rightarrow> DCDWriter \<Rightarrow> byte list" where
  "header_bytes fp w =
     f77_bytes (map of_char ''CORD'' @ drop 4 (concat (map le32 (header_icntrl fp w)))) (21 * 4)
     @ f77_bytes (title_block (titles w)) (4 + 80 * of_nat (length (titles w)))
     @ f77_bytes (le32 (natoms w)) 4"

definition coordinate_bytes ::
  "fp_encoding \<Rightarrow> store \<Rightarrow> AtomicGroup \<Rightarrow> (GCoord \<Rightarrow> real) \<Rightarrow> DCDWriter \<Rightarrow> byte list" where
  "coordinate_bytes fp st grp sel w =
     f77_bytes (concat (map (\<lambda>i. le32 (float_bits fp (sel (coords (st (atoms grp ! i))))))
                          [0..<unat (natoms w)]))
       (natoms w * 4)"

definition frame_bytes :: "fp_encoding \<Rightarrow> store \<Rightarrow> AtomicGroup \<Rightarrow> DCDWriter \<Rightarrow> byte list" where
  "frame_bytes fp st grp w =
     (if has_box w
      then (case periodic_box grp of
              Some b \<Rightarrow> f77_bytes (concat (map (\<lambda>v. le64 (double_bits fp v))
                                     [gx b, default_unit_cell_angle, gy b,
                                      default_unit_cell_angle, default_unit_cell_angle, gz b])) (6 * 8)
            | None \<Rightarrow> [])
      else [])
     @ coordinate_bytes fp st grp gx w @ coordinate_bytes fp st grp gy w
     @ coordinate_bytes fp st grp gz w"

text \<open>
  The group a frame is written from is accepted when neither test of \<^verbatim>\<open>writeFrame\<close> throws.
\<close>

definition frame_accepted :: "AtomicGroup \<Rightarrow> DCDWriter \<Rightarrow> bool" where
  "frame_accepted grp w \<longleftrightarrow>
     (natoms w = 0 \<or>
      (of_nat (length (atoms grp)) = natoms w \<and> (has_box w \<longrightarrow> periodic_box grp \<noteq> None)))"

definition first_frame :: "AtomicGroup \<Rightarrow> DCDWriter \<Rightarrow> DCDWriter" where
  "first_frame grp w =
     (if natoms w = 0
      then w\<lparr>natoms := of_nat (length (atoms grp)), has_box := (periodic_box grp \<noteq> None)\<rparr>
      else w)"

text \<open>Example inputs: an encoding, an empty group and a group of one atom.\<close>

definition ex_fp :: fp_encoding where
  "ex_fp = \<lparr>float_bits = (\<lambda>v. word_of_int \<lfloor>v\<rfloor>), double_bits = (\<lambda>v. word_of_int \<lfloor>v\<rfloor>)\<rparr>"

definition ex_empty :: AtomicGroup where
  "ex_empty = \<lparr>atoms = [], periodic_box = None\<rparr>"

definition ex_single :: AtomicGroup where
  "ex_single = \<lparr>atoms = [0], periodic_box = None\<rparr>"

definition ex_pair :: AtomicGroup where
  "ex_pair = \<lparr>atoms = [0, 1], periodic_box = None\<rparr>"

text \<open>
  Two writers: one that has written a frame of the empty group, one that has written a
  frame of two atoms.
\<close>

definition ex_writer0 :: DCDWriter where
  "ex_writer0 = snd (writeFrame ex_fp ex_store ex_empty new_DCDWriter)"

definition ex_writer2 :: DCDWriter where
  "ex_writer2 = snd (writeFrame ex_fp ex_store ex_pair new_DCDWriter)"

section \<open>Deviation and iterative alignment\<close>





definition referenceGroup :: "AtomicGroup list \<Rightarrow> nat \<Rightarrow> AtomicGroup" where
  "referenceGroup ens n =
     (let b = Suc (foldl max 0 (concat (map atoms ens)))
      in \<lparr>atoms = [b..<b + n], periodic_box = None\<rparr>)"










section \<open>Notions used in the proofs\<close>


section \<open>Auxiliary facts\<close>

lemma upt3: "[0..<3] = [0, 1, 2]"
  by (simp add: numeral_3_eq_3 numeral_2_eq_2)

lemma upt4: "[0..<4] = [0, 1, 2, 3]"
  by (simp add: numeral_eq_Suc)

lemma replicate9: "replicate 9 (x::real) = [x, x, x, x, x, x, x, x, x]"
  by (simp add: numeral_eq_Suc)

lemma list9:
  assumes "length (A::'a list) = 9"
  obtains a0 a1 a2 a3 a4 a5 a6 a7 a8 where "A = [a0, a1, a2, a3, a4, a5, a6, a7, a8]"
  using assms by (auto simp: numeral_eq_Suc length_Suc_conv)

lemma sum_list_neg: "(\<Sum>a\<leftarrow>xs. - f a) = - (\<Sum>a\<leftarrow>xs. (f a :: real))"
  by (induction xs) auto

subsection \<open>The inertia tensor\<close>

lemma inertia_step_explicit:
  "inertia_step st c [a0, a1, a2, a3, a4, a5, a6, a7, a8] a =
     [a0 + mass (st a) * (gy (gminus (coords (st a)) c) * gy (gminus (coords (st a)) c)
                          + gz (gminus (coords (st a)) c) * gz (gminus (coords (st a)) c)),
      a1 + mass (st a) * gx (gminus (coords (st a)) c) * gy (gminus (coords (st a)) c),
      a2 + mass (st a) * gx (gminus (coords (st a)) c) * gz (gminus (coords (st a)) c),
      a3,
      a4 + mass (st a) * (gx (gminus (coords (st a)) c) * gx (gminus (coords (st a)) c)
                          + gz (gminus (coords (st a)) c) * gz (gminus (coords (st a)) c)),
      a5 + mass (st a) * gy (gminus (coords (st a)) c) * gz (gminus (coords (st a)) c),
      a6, a7,
      a8 + mass (st a) * (gx (gminus (coords (st a)) c) * gx (gminus (coords (st a)) c)
                          + gy (gminus (coords (st a)) c) * gy (gminus (coords (st a)) c))]"
  by (simp add: inertia_step_def Let_def)

lemma inertia_fold:
  "foldl (inertia_step st c) [a0, a1, a2, a3, a4, a5, a6, a7, a8] as =
     [a0 + (\<Sum>a\<leftarrow>as. mass (st a) * (gy (gminus (coords (st a)) c) * gy (gminus (coords (st a)) c)
                                     + gz (gminus (coords (st a)) c) * gz (gminus (coords (st a)) c))),
      a1 + (\<Sum>a\<leftarrow>as. mass (st a) * gx (gminus (coords (st a)) c) * gy (gminus (coords (st a)) c)),
      a2 + (\<Sum>a\<leftarrow>as. mass (st a) * gx (gminus (coords (st a)) c) * gz (gminus (coords (st a)) c)),
      a3,
      a4 + (\<Sum>a\<leftarrow>as. mass (st a) * (gx (gminus (coords (st a)) c) * gx (gminus (coords (st a)) c)
                                     + gz (gminus (coords (st a)) c) * gz (gminus (coords (st a)) c))),
      a5 + (\<Sum>a\<leftarrow>as. mass (st a) * gy (gminus (coords (st a)) c) * gz (gminus (coords (st a)) c)),
      a6, a7,
      a8 + (\<Sum>a\<leftarrow>as. mass (st a) * (gx (gminus (coords (st a)) c) * gx (gminus (coords (st a)) c)
                                     + gy (gminus (coords (st a)) c) * gy (gminus (coords (st a)) c)))]"
proof (induction as arbitrary: a0 a1 a2 a4 a5 a8)
  case Nil
  show ?case by simp
next
  case (Cons a as)
  show ?case
    by (simp add: inertia_step_explicit Cons.IH add.assoc)
qed

text \<open>
  C6. The matrix that \<^verbatim>\<open>momentsOfInertia\<close> hands to the eigensolver is the sum over the
  members of the standard inertia tensor, with \<open>u\<close> the position relative to the center of
  mass and \<open>m\<close> the mass: the diagonal holds \<open>m * (u.y\<^sup>2 + u.z\<^sup>2)\<close>, \<open>m * (u.x\<^sup>2 + u.z\<^sup>2)\<close>,
  \<open>m * (u.x\<^sup>2 + u.y\<^sup>2)\<close>, the symmetric off-diagonal entries hold \<open>- m * u.x * u.y\<close>,
  \<open>- m * u.x * u.z\<close>, \<open>- m * u.y * u.z\<close>; the solver is called on that matrix and on no
  other.
\<close>

theorem momentsOfInertia_tensor:
  fixes st :: store and g :: AtomicGroup
  defines "u \<equiv> \<lambda>a. gminus (coords (st a)) (centerOfMass st g)"
  defines "m \<equiv> \<lambda>a. mass (st a)"
  defines "T \<equiv> [(\<Sum>a\<leftarrow>atoms g. m a * (gy (u a) * gy (u a) + gz (u a) * gz (u a))),
                 (\<Sum>a\<leftarrow>atoms g. - m a * gx (u a) * gy (u a)),
                 (\<Sum>a\<leftarrow>atoms g. - m a * gx (u a) * gz (u a)),
                 (\<Sum>a\<leftarrow>atoms g. - m a * gx (u a) * gy (u a)),
                 (\<Sum>a\<leftarrow>atoms g. m a * (gx (u a) * gx (u a) + gz (u a) * gz (u a))),
                 (\<Sum>a\<leftarrow>atoms g. - m a * gy (u a) * gz (u a)),
                 (\<Sum>a\<leftarrow>atoms g. - m a * gx (u a) * gz (u a)),
                 (\<Sum>a\<leftarrow>atoms g. - m a * gy (u a) * gz (u a)),
                 (\<Sum>a\<leftarrow>atoms g. m a * (gx (u a) * gx (u a) + gy (u a) * gy (u a)))]"
  shows "inertiaTensor st g = T \<and>
         momentsOfInertia dsyev st g = eigen_solve (\<lambda>A. dsyev T) T (length (atoms g))"
proof -
  have "inertiaTensor st g = T"
    unfolding inertiaTensor_def replicate9 inertia_fold
    by (simp add: inertia_symmetrise_def Let_def T_def u_def m_def sum_list_neg)
  then show ?thesis
    by (simp add: momentsOfInertia_def eigen_solve_def)
qed

subsection \<open>The results of the eigensolver\<close>

lemma eigen_results_explicit:
  "eigen_results r n =
     [column3 (e_vectors r) 2, column3 (e_vectors r) 1, column3 (e_vectors r) 0,
      gdiv (GCoord (e_values r ! 2) (e_values r ! 1) (e_values r ! 0)) (real n)]"
  by (simp add: eigen_results_def Let_def upt3 column3_def numeral_eq_Suc)

lemma eigen_solve_Inr:
  "eigen_solve dsyev A n = Inr res \<longleftrightarrow> e_info (dsyev A) = 0 \<and> res = eigen_results (dsyev A) n"
  by (auto simp: eigen_solve_def Let_def)

lemma eigen_solve_descending:
  assumes "eigen_solve dsyev A n = Inr res" and "dsyev_contract A (dsyev A)"
  shows "descending_eigen A (dsyev A) n res"
proof -
  from assms(1) have info: "e_info (dsyev A) = 0" and res: "res = eigen_results (dsyev A) n"
    by (simp_all add: eigen_solve_Inr)
  from assms(2) info have c:
    "e_values (dsyev A) ! 0 \<le> e_values (dsyev A) ! 1" "e_values (dsyev A) ! 1 \<le> e_values (dsyev A) ! 2"
    "is_eigenvector A (column3 (e_vectors (dsyev A)) 0) (e_values (dsyev A) ! 0)"
    "is_eigenvector A (column3 (e_vectors (dsyev A)) 1) (e_values (dsyev A) ! 1)"
    "is_eigenvector A (column3 (e_vectors (dsyev A)) 2) (e_values (dsyev A) ! 2)"
    by (simp_all add: dsyev_contract_def)
  show ?thesis
    unfolding res eigen_results_explicit descending_eigen_def using c by (simp add: numeral_eq_Suc)
qed

text \<open>
  C4. When they succeed, \<^verbatim>\<open>momentsOfInertia\<close> and \<^verbatim>\<open>principalAxes\<close> return exactly four
  entries: three eigenvectors ordered by descending eigenvalue, then the three eigenvalues,
  largest first, divided by the number of points. The solver is taken to keep its promise
  (ascending eigenvalues, column \<open>i\<close> a unit eigenvector for the eigenvalue \<open>W i\<close>).
\<close>

theorem eigen_results_descending:
  "(momentsOfInertia dsyev st g = Inr res \<and>
      dsyev_contract (inertiaTensor st g) (dsyev (inertiaTensor st g))
      \<longrightarrow> descending_eigen (inertiaTensor st g) (dsyev (inertiaTensor st g)) (length (atoms g)) res) \<and>
   (principalAxes dsyev st g = Inr res' \<and>
      dsyev_contract (scatterMatrix st g) (dsyev (scatterMatrix st g))
      \<longrightarrow> descending_eigen (scatterMatrix st g) (dsyev (scatterMatrix st g)) (length (atoms g)) res')"
  by (auto simp: momentsOfInertia_def principalAxes_def intro: eigen_solve_descending)

lemma ex_inertiaTensor: "inertiaTensor ex_store ex_cross = [8, 0, 0, 0, 2, 0, 0, 0, 10]"
  by code_simp

lemma ex_scatterMatrix: "scatterMatrix ex_store ex_cross = [2, 0, 0, 0, 8, 0, 0, 0, 0]"
  by code_simp

theorem eigen_results_descending_witness:
  "momentsOfInertia ex_dsyev ex_store ex_cross
     = Inr [GCoord 0 0 1, GCoord 1 0 0, GCoord 0 1 0, GCoord (5 / 2) 2 (1 / 2)] \<and>
   dsyev_contract (inertiaTensor ex_store ex_cross) (ex_dsyev (inertiaTensor ex_store ex_cross)) \<and>
   descending_eigen (inertiaTensor ex_store ex_cross) (ex_dsyev (inertiaTensor ex_store ex_cross)) 4
     [GCoord 0 0 1, GCoord 1 0 0, GCoord 0 1 0, GCoord (5 / 2) 2 (1 / 2)] \<and>
   principalAxes ex_dsyev ex_store ex_cross
     = Inr [GCoord 0 1 0, GCoord 1 0 0, GCoord 0 0 1, GCoord 2 (1 / 2) 0] \<and>
   dsyev_contract (scatterMatrix ex_store ex_cross) (ex_dsyev (scatterMatrix ex_store ex_cross)) \<and>
   descending_eigen (scatterMatrix ex_store ex_cross) (ex_dsyev (scatterMatrix ex_store ex_cross)) 4
     [GCoord 0 1 0, GCoord 1 0 0, GCoord 0 0 1, GCoord 2 (1 / 2) 0]"
proof -
  have m: "momentsOfInertia ex_dsyev ex_store ex_cross
             = Inr [GCoord 0 0 1, GCoord 1 0 0, GCoord 0 1 0, GCoord (5 / 2) 2 (1 / 2)]"
    by code_simp
  have p: "principalAxes ex_dsyev ex_store ex_cross
             = Inr [GCoord 0 1 0, GCoord 1 0 0, GCoord 0 0 1, GCoord 2 (1 / 2) 0]"
    by code_simp
  have c1: "dsyev_contract (inertiaTensor ex_store ex_cross) (ex_dsyev (inertiaTensor ex_store ex_cross))"
    by code_simp
  have c2: "dsyev_contract (scatterMatrix ex_store ex_cross) (ex_dsyev (scatterMatrix ex_store ex_cross))"
    by code_simp
  have n: "length (atoms ex_cross) = 4"
    by (simp add: ex_cross_def)
  show ?thesis
    using eigen_results_descending [of ex_dsyev ex_store ex_cross
        "[GCoord 0 0 1, GCoord 1 0 0, GCoord 0 1 0, GCoord (5 / 2) 2 (1 / 2)]"
        "[GCoord 0 1 0, GCoord 1 0 0, GCoord 0 0 1, GCoord 2 (1 / 2) 0]"] m p c1 c2 n
    by simp
qed

subsection \<open>Numerical errors\<close>

lemma eigen_solve_status: "raises_iff_status (eigen_solve dsyev A n) (e_info (dsyev A))"
  by (auto simp: raises_iff_status_def eigen_solve_def Let_def)

lemma length_transformedCoordsAsArray:
  "length (transformedCoordsAsArray st g W) = 3 * length (atoms g)"
  by (simp add: transformedCoordsAsArray_def positions_def length_concat o_def Let_def sum_list_triv)

lemma superposition_status:
  assumes "length (atoms g) \<le> length (atoms grp)"
  shows "raises_iff_status (fst (superposition dgesvd st g grp))
           (s_info (dgesvd (correlationMatrix st g grp)))"
  using assms
  by (auto simp: raises_iff_status_def superposition_def Let_def correlationMatrix_def
        centeredCoords_def length_transformedCoordsAsArray)

text \<open>
  C5. \<^verbatim>\<open>momentsOfInertia\<close>, \<^verbatim>\<open>principalAxes\<close> and \<^verbatim>\<open>superposition\<close> raise a
  \<^verbatim>\<open>NumericalError\<close> carrying the status of the solver if and only if that status is not
  zero, and return a result if and only if it is zero. For \<^verbatim>\<open>superposition\<close> the reference
  group has at least as many atoms as the moving one, so that the solver is reached
  without a read past the end of an array.
\<close>

theorem numerical_error_iff_status:
  "raises_iff_status (momentsOfInertia dsyev st g) (e_info (dsyev (inertiaTensor st g))) \<and>
   raises_iff_status (principalAxes dsyev st g) (e_info (dsyev (scatterMatrix st g))) \<and>
   (length (atoms g) \<le> length (atoms grp) \<longrightarrow>
      raises_iff_status (fst (superposition dgesvd st g grp))
        (s_info (dgesvd (correlationMatrix st g grp))))"
  by (simp add: momentsOfInertia_def principalAxes_def eigen_solve_status superposition_status)

theorem numerical_error_iff_status_witness:
  "momentsOfInertia (\<lambda>A. ex_eigen_failed) ex_store ex_cross
     = Inl (NumericalError ''dsyev_ failed to converge.'' 2) \<and>
   length (atoms ex_tetra) \<le> length (atoms ex_turned) \<and>
   fst (superposition (\<lambda>R. ex_svd_failed) ex_store ex_tetra ex_turned)
     = Inl (NumericalError ''SVD in AtomicGroup::superposition returned an error'' 3) \<and>
   (\<exists>W. fst (superposition (\<lambda>R. ex_svd_turned) ex_store ex_tetra ex_turned) = Inr W)"
proof -
  have l: "length (atoms ex_tetra) \<le> length (atoms ex_turned)"
    by (simp add: ex_tetra_def ex_turned_def)
  have a: "\<exists>msg. momentsOfInertia (\<lambda>A. ex_eigen_failed) ex_store ex_cross = Inl (NumericalError msg 2)"
    using numerical_error_iff_status [of "\<lambda>A. ex_eigen_failed" ex_store ex_cross ex_cross "\<lambda>R. ex_svd_failed"]
    by (simp add: raises_iff_status_def ex_eigen_failed_def)
  have b: "\<exists>msg. fst (superposition (\<lambda>R. ex_svd_failed) ex_store ex_tetra ex_turned) = Inl (NumericalError msg 3)"
    using numerical_error_iff_status [of "\<lambda>A. ex_eigen_failed" ex_store ex_tetra ex_turned "\<lambda>R. ex_svd_failed"] l
    by (simp add: raises_iff_status_def ex_svd_failed_def)
  have c: "\<exists>W. fst (superposition (\<lambda>R. ex_svd_turned) ex_store ex_tetra ex_turned) = Inr W"
    using numerical_error_iff_status [of "\<lambda>A. ex_eigen_failed" ex_store ex_tetra ex_turned "\<lambda>R. ex_svd_turned"] l
    by (simp add: raises_iff_status_def ex_svd_turned_def)
  from a have a': "momentsOfInertia (\<lambda>A. ex_eigen_failed) ex_store ex_cross
                     = Inl (NumericalError ''dsyev_ failed to converge.'' 2)"
    by (auto simp: momentsOfInertia_def eigen_solve_def Let_def ex_eigen_failed_def)
  from b l have b': "fst (superposition (\<lambda>R. ex_svd_failed) ex_store ex_tetra ex_turned)
                     = Inl (NumericalError ''SVD in AtomicGroup::superposition returned an error'' 3)"
    by (auto simp: superposition_def Let_def ex_svd_failed_def length_transformedCoordsAsArray)
  from a' b' c l show ?thesis by simp
qed

subsection \<open>3x3 matrices stored by columns\<close>


lemma mm3_explicit:
  "mm3 [a0, a1, a2, a3, a4, a5, a6, a7, a8] [b0, b1, b2, b3, b4, b5, b6, b7, b8] =
     [a0 * b0 + a3 * b1 + a6 * b2, a1 * b0 + a4 * b1 + a7 * b2, a2 * b0 + a5 * b1 + a8 * b2,
      a0 * b3 + a3 * b4 + a6 * b5, a1 * b3 + a4 * b4 + a7 * b5, a2 * b3 + a5 * b4 + a8 * b5,
      a0 * b6 + a3 * b7 + a6 * b8, a1 * b6 + a4 * b7 + a7 * b8, a2 * b6 + a5 * b7 + a8 * b8]"
  by (simp add: mm3_def dgemm_def upt3)

lemma length_mm3 [simp]: "length (mm3 A B) = 9"
  by (simp add: mm3_def dgemm_def upt3)

lemma det3_explicit:
  "det3 [a0, a1, a2, a3, a4, a5, a6, a7, a8] =
     a0 * a4 * a8 + a3 * a7 * a2 + a6 * a1 * a5 - a0 * a7 * a5 - a3 * a1 * a8 - a6 * a4 * a2"
  by (simp add: det3_def)

lemma det3_mm3:
  assumes "length A = 9" and "length B = 9"
  shows "det3 (mm3 A B) = det3 A * det3 B"
proof -
  from assms(1) obtain a0 a1 a2 a3 a4 a5 a6 a7 a8 where A: "A = [a0, a1, a2, a3, a4, a5, a6, a7, a8]"
    by (rule list9)
  from assms(2) obtain b0 b1 b2 b3 b4 b5 b6 b7 b8 where B: "B = [b0, b1, b2, b3, b4, b5, b6, b7, b8]"
    by (rule list9)
  show ?thesis
    unfolding A B mm3_explicit det3_explicit by (simp add: algebra_simps)
qed

lemma det3_tr3: "det3 (tr3 A) = det3 A"
  by (simp add: det3_def tr3_def)

lemma det3_id3: "det3 id3 = 1"
  by (simp add: det3_def id3_def)

lemma det3_diag3: "det3 (diag3 S) = S ! 0 * S ! 1 * S ! 2"
  by (simp add: det3_def diag3_def)

lemma length_tr3 [simp]: "length (tr3 A) = 9"
  by (simp add: tr3_def)

lemma orthogonal3_det: 
  assumes "orthogonal3 A" shows "det3 A = 1 \<or> det3 A = - 1"
proof -
  from assms have "length A = 9" and "mm3 (tr3 A) A = id3"
    by (simp_all add: orthogonal3_def)
  then have "det3 (tr3 A) * det3 A = 1"
    using det3_mm3 [of "tr3 A" A] by (simp add: det3_id3)
  then have "det3 A * det3 A = 1" by (simp add: det3_tr3)
  then show ?thesis by (simp add: square_eq_1_iff)
qed

lemma det3_adjustU:
  assumes "length U = 9" and "d < 0"
  shows "det3 (adjustU d U) = - det3 U"
proof -
  from assms(1) obtain a0 a1 a2 a3 a4 a5 a6 a7 a8 where U: "U = [a0, a1, a2, a3, a4, a5, a6, a7, a8]"
    by (rule list9)
  show ?thesis using assms(2) unfolding U by (simp add: adjustU_def Let_def det3_def)
qed

subsection \<open>The composed transform\<close>

lemma rotationGMatrix_explicit:
  "rotationGMatrix M =
     [M ! 0, M ! 1, M ! 2, 0,  M ! 3, M ! 4, M ! 5, 0,  M ! 6, M ! 7, M ! 8, 0,  0, 0, 0, 1]"
  by (simp add: rotationGMatrix_def upt3 gm_identity_def numeral_2_eq_2)

lemma gm_mul_explicit:
  "gm_mul [a0, a1, a2, a3, a4, a5, a6, a7, a8, a9, a10, a11, a12, a13, a14, a15]
          [b0, b1, b2, b3, b4, b5, b6, b7, b8, b9, b10, b11, b12, b13, b14, b15] =
     [a0 * b0 + a1 * b4 + a2 * b8 + a3 * b12, a0 * b1 + a1 * b5 + a2 * b9 + a3 * b13,
      a0 * b2 + a1 * b6 + a2 * b10 + a3 * b14, a0 * b3 + a1 * b7 + a2 * b11 + a3 * b15,
      a4 * b0 + a5 * b4 + a6 * b8 + a7 * b12, a4 * b1 + a5 * b5 + a6 * b9 + a7 * b13,
      a4 * b2 + a5 * b6 + a6 * b10 + a7 * b14, a4 * b3 + a5 * b7 + a6 * b11 + a7 * b15,
      a8 * b0 + a9 * b4 + a10 * b8 + a11 * b12, a8 * b1 + a9 * b5 + a10 * b9 + a11 * b13,
      a8 * b2 + a9 * b6 + a10 * b10 + a11 * b14, a8 * b3 + a9 * b7 + a10 * b11 + a11 * b15,
      a12 * b0 + a13 * b4 + a14 * b8 + a15 * b12, a12 * b1 + a13 * b5 + a14 * b9 + a15 * b13,
      a12 * b2 + a13 * b6 + a14 * b10 + a15 * b14, a12 * b3 + a13 * b7 + a14 * b11 + a15 * b15]"
  by (simp add: gm_mul_def upt4)

lemma compose_explicit:
  "XForm_translate (gneg xc) (XForm_concat (rotationGMatrix M) (XForm_translate yc XForm_identity)) =
     [M ! 0, M ! 1, M ! 2, gx yc - (M ! 0 * gx xc + M ! 1 * gy xc + M ! 2 * gz xc),
      M ! 3, M ! 4, M ! 5, gy yc - (M ! 3 * gx xc + M ! 4 * gy xc + M ! 5 * gz xc),
      M ! 6, M ! 7, M ! 8, gz yc - (M ! 6 * gx xc + M ! 7 * gy xc + M ! 8 * gz xc),
      0, 0, 0, 1]"
  by (simp add: XForm_translate_def XForm_concat_def XForm_identity_def rotationGMatrix_explicit
        gm_identity_def gm_translation_def gm_mul_explicit gneg_def algebra_simps)



lemma tr3_explicit: "tr3 [a0, a1, a2, a3, a4, a5, a6, a7, a8] = [a0, a3, a6, a1, a4, a7, a2, a5, a8]"
  by (simp add: tr3_def)

lemma tr3_tr3: "length A = 9 \<Longrightarrow> tr3 (tr3 A) = A"
  by (erule list9) (simp add: tr3_explicit)

lemma tr3_mm3:
  assumes "length A = 9" and "length B = 9"
  shows "tr3 (mm3 A B) = mm3 (tr3 B) (tr3 A)"
proof -
  from assms(1) obtain a0 a1 a2 a3 a4 a5 a6 a7 a8 where A: "A = [a0, a1, a2, a3, a4, a5, a6, a7, a8]"
    by (rule list9)
  from assms(2) obtain b0 b1 b2 b3 b4 b5 b6 b7 b8 where B: "B = [b0, b1, b2, b3, b4, b5, b6, b7, b8]"
    by (rule list9)
  show ?thesis
    unfolding A B mm3_explicit tr3_explicit by (simp add: mult.commute)
qed

lemma mm3_assoc:
  assumes "length A = 9" and "length B = 9" and "length C = 9"
  shows "mm3 (mm3 A B) C = mm3 A (mm3 B C)"
proof -
  from assms(1) obtain a0 a1 a2 a3 a4 a5 a6 a7 a8 where A: "A = [a0, a1, a2, a3, a4, a5, a6, a7, a8]"
    by (rule list9)
  from assms(2) obtain b0 b1 b2 b3 b4 b5 b6 b7 b8 where B: "B = [b0, b1, b2, b3, b4, b5, b6, b7, b8]"
    by (rule list9)
  from assms(3) obtain c0 c1 c2 c3 c4 c5 c6 c7 c8 where C: "C = [c0, c1, c2, c3, c4, c5, c6, c7, c8]"
    by (rule list9)
  show ?thesis
    unfolding A B C mm3_explicit by (simp add: algebra_simps)
qed

lemma mm3_id3_left: "length A = 9 \<Longrightarrow> mm3 id3 A = A"
  by (erule list9) (simp add: id3_def mm3_explicit)


lemma orthogonal3_length: "orthogonal3 A \<Longrightarrow> length A = 9"
  by (simp add: orthogonal3_def)

lemma orthogonal3_tr3: "orthogonal3 A \<Longrightarrow> orthogonal3 (tr3 A)"
  by (simp add: orthogonal3_def tr3_tr3)

lemma orthogonal3_mm3:
  assumes "orthogonal3 A" and "orthogonal3 B"
  shows "orthogonal3 (mm3 A B)"
proof -
  from assms have lA: "length A = 9" and lB: "length B = 9"
    and A1: "mm3 (tr3 A) A = id3" and A2: "mm3 A (tr3 A) = id3"
    and B1: "mm3 (tr3 B) B = id3" and B2: "mm3 B (tr3 B) = id3"
    by (simp_all add: orthogonal3_def)
  have "mm3 (tr3 (mm3 A B)) (mm3 A B) = mm3 (mm3 (tr3 B) (tr3 A)) (mm3 A B)"
    by (simp add: tr3_mm3 lA lB)
  also have "\<dots> = mm3 (tr3 B) (mm3 (tr3 A) (mm3 A B))"
    by (simp add: mm3_assoc)
  also have "mm3 (tr3 A) (mm3 A B) = mm3 (mm3 (tr3 A) A) B"
    by (simp add: mm3_assoc lA lB)
  also have "\<dots> = B"
    by (simp add: A1 mm3_id3_left lB)
  finally have 1: "mm3 (tr3 (mm3 A B)) (mm3 A B) = id3"
    by (simp add: B1)
  have "mm3 (mm3 A B) (tr3 (mm3 A B)) = mm3 (mm3 A B) (mm3 (tr3 B) (tr3 A))"
    by (simp add: tr3_mm3 lA lB)
  also have "\<dots> = mm3 A (mm3 B (mm3 (tr3 B) (tr3 A)))"
    by (simp add: mm3_assoc lA lB)
  also have "mm3 B (mm3 (tr3 B) (tr3 A)) = mm3 (mm3 B (tr3 B)) (tr3 A)"
    by (simp add: mm3_assoc lB)
  also have "\<dots> = tr3 A"
    by (simp add: B2 mm3_id3_left)
  finally have 2: "mm3 (mm3 A B) (tr3 (mm3 A B)) = id3"
    by (simp add: A2)
  from 1 2 show ?thesis by (simp add: orthogonal3_def)
qed

lemma adjustU_explicit:
  "adjustU d [a0, a1, a2, a3, a4, a5, a6, a7, a8] =
     (if d < 0 then [a0, a1, a2, a3, a4, a5, - a6, - a7, - a8] else [a0, a1, a2, a3, a4, a5, a6, a7, a8])"
  by (simp add: adjustU_def Let_def)

lemma adjustU_negates:
  assumes "length U = 9" and "d < 0"
  shows "adjustU d U = U[6 := - (U ! 6), 7 := - (U ! 7), 8 := - (U ! 8)]"
  using assms by (simp add: adjustU_def Let_def)

lemma orthogonal3_adjustU:
  assumes "orthogonal3 U"
  shows "orthogonal3 (adjustU d U)"
proof -
  from assms have "length U = 9" by (rule orthogonal3_length)
  then obtain a0 a1 a2 a3 a4 a5 a6 a7 a8 where U: "U = [a0, a1, a2, a3, a4, a5, a6, a7, a8]"
    by (rule list9)
  show ?thesis
    using assms unfolding U adjustU_explicit
    by (simp add: orthogonal3_def tr3_explicit mm3_explicit id3_def)
qed


lemma rotationGMatrix_embed3: "rotationGMatrix M = embed3 (tr3 M)"
  by (simp add: rotationGMatrix_explicit embed3_def tr3_def)

lemma superposition_success:
  assumes "length (atoms g) \<le> length (atoms grp)"
    and "s_info (dgesvd (correlationMatrix st g grp)) = 0"
  shows "superposition dgesvd st g grp =
           (Inr (XForm_translate (gneg (centroid st g))
                  (XForm_concat
                     (rotationGMatrix (mm3 (adjustU (det3 (correlationMatrix st g grp))
                                              (s_U (dgesvd (correlationMatrix st g grp))))
                                           (s_Vt (dgesvd (correlationMatrix st g grp)))))
                     (XForm_translate (centroid st grp) XForm_identity))), st)"
  using assms
  by (simp add: superposition_def Let_def correlationMatrix_def centeredCoords_def
        length_transformedCoordsAsArray mm3_def)

lemma rotationPart_compose:
  "rotationPart (XForm_translate (gneg xc) (XForm_concat (rotationGMatrix M) (XForm_translate yc XForm_identity)))
     = tr3 M"
  by (simp add: compose_explicit rotationPart_def tr3_def)

text \<open>
  C1 (as amended). For two groups of the same size on which the SVD succeeds,
  \<^verbatim>\<open>superposition\<close> returns the transform composed as: identity, translate by the
  reference's centroid, concatenate the \<^emph>\<open>transpose\<close> of \<open>M = U * Vt\<close> (with \<open>U\<close> after the
  reflection correction), translate by the negative of the moving group's centroid. The
  loop \<^verbatim>\<open>Z(i,j) = M[i*3+j]\<close> reads the column-major product row by row, which transposes
  it (the code's comment says \<^verbatim>\<open>W = M'\<close>).
\<close>

theorem superposition_composition:
  assumes "length (atoms g) = length (atoms grp)"
    and "s_info (dgesvd (correlationMatrix st g grp)) = 0"
  shows "\<exists>W. superposition dgesvd st g grp = (Inr W, st) \<and>
             W = XForm_translate (gneg (centroid st g))
                   (XForm_concat
                      (embed3 (tr3 (mm3 (adjustU (det3 (correlationMatrix st g grp))
                                           (s_U (dgesvd (correlationMatrix st g grp))))
                                        (s_Vt (dgesvd (correlationMatrix st g grp))))))
                      (XForm_translate (centroid st grp) XForm_identity)) \<and>
             rotationPart W =
               tr3 (mm3 (adjustU (det3 (correlationMatrix st g grp))
                           (s_U (dgesvd (correlationMatrix st g grp))))
                        (s_Vt (dgesvd (correlationMatrix st g grp))))"
  using assms
  by (simp add: superposition_success rotationPart_compose rotationGMatrix_embed3 [symmetric])

theorem superposition_composition_witness:
  "length (atoms ex_tetra) = length (atoms ex_turned) \<and>
   s_info (ex_svd_turned) = 0 \<and>
   superposition (\<lambda>R. ex_svd_turned) ex_store ex_tetra ex_turned =
     (Inr [0, -1, 0, 1,  1, 0, 0, 2,  0, 0, 1, 3,  0, 0, 0, 1], ex_store) \<and>
   rotationPart [0, -1, 0, 1,  1, 0, 0, 2,  0, 0, 1, 3,  0, 0, 0, 1] = [0, 1, 0,  -1, 0, 0,  0, 0, 1]"
proof -
  have l: "length (atoms ex_tetra) = length (atoms ex_turned)"
    by (simp add: ex_tetra_def ex_turned_def)
  have i: "s_info ((\<lambda>R. ex_svd_turned) (correlationMatrix ex_store ex_tetra ex_turned)) = 0"
    by (simp add: ex_svd_turned_def)
  have v: "XForm_translate (gneg (centroid ex_store ex_tetra))
             (XForm_concat
                (embed3 (tr3 (mm3 (adjustU (det3 (correlationMatrix ex_store ex_tetra ex_turned))
                                     (s_U ex_svd_turned))
                                  (s_Vt ex_svd_turned))))
                (XForm_translate (centroid ex_store ex_turned) XForm_identity))
           = [0, -1, 0, 1,  1, 0, 0, 2,  0, 0, 1, 3,  0, 0, 0, 1]"
    by code_simp
  have r: "rotationPart [0, -1, 0, 1,  1, 0, 0, 2,  0, 0, 1, 3,  0, 0, 0, 1] = [0, 1, 0,  -1, 0, 0,  0, 0, 1]"
    by (simp add: rotationPart_def)
  from superposition_composition [OF l i] v
  have "superposition (\<lambda>R. ex_svd_turned) ex_store ex_tetra ex_turned =
          (Inr [0, -1, 0, 1,  1, 0, 0, 2,  0, 0, 1, 3,  0, 0, 0, 1], ex_store)"
    by auto
  with l r show ?thesis
    by (simp add: ex_svd_turned_def)
qed

text \<open>
  C1 as stated fails: for the tetrahedron and its copy turned by a quarter turn about \<open>z\<close>
  and moved by \<open>(1, 2, 3)\<close>, with a decomposition that keeps the solver's promise, the
  transform returned is not the one composed with \<open>M = U * Vt\<close> itself as rotation (that
  one turns the other way).
\<close>

theorem superposition_rotation_counterexample:
  "dgesvd_contract (correlationMatrix ex_store ex_tetra ex_turned) ex_svd_turned \<and>
   length (atoms ex_tetra) = length (atoms ex_turned) \<and>
   fst (superposition (\<lambda>R. ex_svd_turned) ex_store ex_tetra ex_turned)
     \<noteq> Inr (superposition_as_specified (\<lambda>R. ex_svd_turned) ex_store ex_tetra ex_turned)"
  by code_simp

subsection \<open>The reflection correction\<close>

text \<open>
  The rounding at work: 1 is kept, a third becomes \<open>6004799503160661 / 2\<^sup>5\<^sup>4\<close>, and of
  the two ties \<open>2\<^sup>5\<^sup>3 + 1\<close> and \<open>2\<^sup>5\<^sup>3 + 3\<close> the first goes down and the second up.
\<close>

lemma round_double_examples:
  "round_double 1 = 1"
  "round_double (1 / 3) = 6004799503160661 / 2 ^ 54"
  "round_double (2 ^ 53 + 1) = 2 ^ 53"
  "round_double (2 ^ 53 + 3) = 2 ^ 53 + 4"
  "round_double (- (2 ^ 53 + 3)) = - (2 ^ 53 + 4)"
  by code_simp+

lemma det_rounded_exact: "det_rounded (\<lambda>x. x) R = det3 R"
  by (simp add: det_rounded_def det3_def)

lemma superposition_rounded_sign:
  assumes "det_rounded fl (correlationMatrix st g grp) < 0 \<longleftrightarrow> det3 (correlationMatrix st g grp) < 0"
  shows "superposition_rounded fl dgesvd st g grp = superposition dgesvd st g grp"
proof -
  have "adjustU (det_rounded fl (correlationMatrix st g grp)) U = adjustU (det3 (correlationMatrix st g grp)) U"
    for U
    using assms by (simp add: adjustU_def)
  then show ?thesis
    by (simp add: superposition_rounded_def superposition_def Let_def correlationMatrix_def centeredCoords_def)
qed

lemma superposition_rounded_exact:
  "superposition_rounded (\<lambda>x. x) dgesvd st g grp = superposition dgesvd st g grp"
  by (rule superposition_rounded_sign) (simp add: det_rounded_exact)

lemma superposition_rounded_success:
  assumes "length (atoms g) \<le> length (atoms grp)"
    and "s_info (dgesvd (correlationMatrix st g grp)) = 0"
  shows "superposition_rounded fl dgesvd st g grp =
           (Inr (XForm_translate (gneg (centroid st g))
                  (XForm_concat
                     (rotationGMatrix (mm3 (adjustU (det_rounded fl (correlationMatrix st g grp))
                                              (s_U (dgesvd (correlationMatrix st g grp))))
                                           (s_Vt (dgesvd (correlationMatrix st g grp)))))
                     (XForm_translate (centroid st grp) XForm_identity))), st)"
  using assms
  by (simp add: superposition_rounded_def Let_def correlationMatrix_def centeredCoords_def
        length_transformedCoordsAsArray mm3_def)

text \<open>
  C2 (as amended). When the determinant as the code computes it, the cofactor expansion
  with every operation rounded, is negative and the SVD succeeds (keeping its promise),
  \<^verbatim>\<open>superposition\<close> negates the third column of \<open>U\<close> before the product, and the rotation
  block of the returned transform is orthogonal with determinant \<open>- det U * det Vt\<close>.
  This is \<open>+1\<close>, a proper rotation, whenever the exact determinant of the correlation
  matrix is negative too, and \<open>-1\<close> whenever the exact determinant is positive. The
  rounding \<open>fl\<close> is arbitrary; the identity gives the statement of exact arithmetic.
\<close>

theorem reflection_correction:
  assumes "length (atoms g) = length (atoms grp)"
    and "s_info (dgesvd (correlationMatrix st g grp)) = 0"
    and "dgesvd_contract (correlationMatrix st g grp) (dgesvd (correlationMatrix st g grp))"
    and "det_rounded fl (correlationMatrix st g grp) < 0"
  shows "\<exists>W. fst (superposition_rounded fl dgesvd st g grp) = Inr W \<and>
             rotationPart W =
               tr3 (mm3 ((s_U (dgesvd (correlationMatrix st g grp)))
                           [6 := - (s_U (dgesvd (correlationMatrix st g grp)) ! 6),
                            7 := - (s_U (dgesvd (correlationMatrix st g grp)) ! 7),
                            8 := - (s_U (dgesvd (correlationMatrix st g grp)) ! 8)])
                        (s_Vt (dgesvd (correlationMatrix st g grp)))) \<and>
             orthogonal3 (rotationPart W) \<and>
             det3 (rotationPart W) =
               - (det3 (s_U (dgesvd (correlationMatrix st g grp)))
                  * det3 (s_Vt (dgesvd (correlationMatrix st g grp)))) \<and>
             (det3 (correlationMatrix st g grp) < 0 \<longrightarrow> det3 (rotationPart W) = 1) \<and>
             (0 < det3 (correlationMatrix st g grp) \<longrightarrow> det3 (rotationPart W) = - 1)"
proof -
  define R where "R = correlationMatrix st g grp"
  define U where "U = s_U (dgesvd R)"
  define Vt where "Vt = s_Vt (dgesvd R)"
  define S where "S = s_S (dgesvd R)"
  define U' where "U' = adjustU (det_rounded fl R) U"
  define p where "p = S ! 0 * S ! 1 * S ! 2"
  from assms(2,3) have oU: "orthogonal3 U" and oV: "orthogonal3 Vt"
    and S: "0 \<le> S ! 2" "S ! 2 \<le> S ! 1" "S ! 1 \<le> S ! 0"
    and R: "mm3 (mm3 U (diag3 S)) Vt = R"
    by (simp_all add: dgesvd_contract_def R_def U_def Vt_def S_def)
  have lU: "length U = 9" and lV: "length Vt = 9"
    using oU oV by (simp_all add: orthogonal3_length)
  have neg: "det_rounded fl R < 0" using assms(4) by (simp add: R_def)
  have U'_eq: "U' = U[6 := - (U ! 6), 7 := - (U ! 7), 8 := - (U ! 8)]"
    unfolding U'_def using lU neg by (rule adjustU_negates)
  have "det3 R = det3 (mm3 (mm3 U (diag3 S)) Vt)"
    using R by simp
  also have "\<dots> = det3 (mm3 U (diag3 S)) * det3 Vt"
    by (rule det3_mm3) (simp_all add: lV)
  also have "det3 (mm3 U (diag3 S)) = det3 U * det3 (diag3 S)"
    by (rule det3_mm3) (simp_all add: lU diag3_def)
  finally have dR: "det3 R = det3 U * p * det3 Vt"
    by (simp add: det3_diag3 mult.assoc p_def)
  have p0: "0 \<le> p" using S by (simp add: p_def)
  have dU: "det3 U = 1 \<or> det3 U = - 1" using oU by (rule orthogonal3_det)
  have dV: "det3 Vt = 1 \<or> det3 Vt = - 1" using oV by (rule orthogonal3_det)
  have prod_neg: "det3 U * det3 Vt = - 1" if "det3 R < 0"
    using that dR p0 dU dV by auto
  have prod_pos: "det3 U * det3 Vt = 1" if "0 < det3 R"
    using that dR p0 dU dV by auto
  have "det3 U' = - det3 U"
    unfolding U'_def using lU neg by (rule det3_adjustU)
  then have d: "det3 (tr3 (mm3 U' Vt)) = - (det3 U * det3 Vt)"
    by (simp add: det3_tr3 det3_mm3 lV U'_eq lU)
  have o: "orthogonal3 (tr3 (mm3 U' Vt))"
    unfolding U'_def by (intro orthogonal3_tr3 orthogonal3_mm3 orthogonal3_adjustU oU oV)
  have "superposition_rounded fl dgesvd st g grp =
          (Inr (XForm_translate (gneg (centroid st g))
             (XForm_concat (rotationGMatrix (mm3 U' Vt)) (XForm_translate (centroid st grp) XForm_identity))), st)"
    using superposition_rounded_success [of g grp dgesvd st fl] assms(1,2)
    by (simp add: U'_def U_def Vt_def R_def)
  then show ?thesis
    using d o U'_eq prod_neg prod_pos by (simp add: rotationPart_compose U_def Vt_def R_def)
qed

theorem reflection_correction_witness:
  "length (atoms ex_tetra) = length (atoms ex_mirror) \<and>
   dgesvd_contract (correlationMatrix ex_store ex_tetra ex_mirror) ex_svd_mirror \<and>
   det_rounded round_double (correlationMatrix ex_store ex_tetra ex_mirror) < 0 \<and>
   det3 (correlationMatrix ex_store ex_tetra ex_mirror) < 0 \<and>
   fst (superposition_rounded round_double (\<lambda>R. ex_svd_mirror) ex_store ex_tetra ex_mirror) = Inr gm_identity \<and>
   orthogonal3 (rotationPart gm_identity) \<and> det3 (rotationPart gm_identity) = 1"
proof -
  have R: "correlationMatrix ex_store ex_tetra ex_mirror = [4, 0, 0,  0, 4, 0,  0, 0, -4]"
    by code_simp
  have l: "length (atoms ex_tetra) = length (atoms ex_mirror)"
    by (simp add: ex_tetra_def ex_mirror_def)
  have l': "length (atoms ex_tetra) \<le> length (atoms ex_mirror)"
    by (simp add: l)
  have i: "s_info ((\<lambda>R. ex_svd_mirror) (correlationMatrix ex_store ex_tetra ex_mirror)) = 0"
    by (simp add: ex_svd_mirror_def)
  have c: "dgesvd_contract (correlationMatrix ex_store ex_tetra ex_mirror)
             ((\<lambda>R. ex_svd_mirror) (correlationMatrix ex_store ex_tetra ex_mirror))"
    by code_simp
  have r0: "det_rounded round_double [4, 0, 0,  0, 4, 0,  0, 0, -4] = - 64"
    by code_simp
  have r: "det_rounded round_double (correlationMatrix ex_store ex_tetra ex_mirror) < 0"
    unfolding R r0 by simp
  have d: "det3 (correlationMatrix ex_store ex_tetra ex_mirror) < 0"
    unfolding R by (simp add: det3_explicit)
  have cx: "centroid ex_store ex_tetra = GCoord 0 0 0" "centroid ex_store ex_mirror = GCoord 0 0 0"
    by code_simp+
  have v: "fst (superposition_rounded round_double (\<lambda>R. ex_svd_mirror) ex_store ex_tetra ex_mirror) = Inr gm_identity"
    unfolding superposition_rounded_success [OF l' i] R r0 cx
    by (simp add: ex_svd_mirror_def adjustU_explicit mm3_explicit compose_explicit gm_identity_def id3_def)
  show ?thesis
    using reflection_correction [OF l i c r] l c r d v by auto
qed

lemma ex_plane_correlation:
  "correlationMatrix ex_plane_store ex_plane ex_plane
     = [630010, 504008, -252004,  504008, 630010, 252004,  -252004, 252004, 1008016]"
  by code_simp

lemma ex_plane_det_rounded:
  "det_rounded round_double [630010, 504008, -252004,  504008, 630010, 252004,  -252004, 252004, 1008016] = - 32"
  by code_simp

lemma ex_plane_centroid: "centroid ex_plane_store ex_plane = GCoord 0 0 0"
  by code_simp

lemma ex_plane_contract:
  "dgesvd_contract [630010, 504008, -252004,  504008, 630010, 252004,  -252004, 252004, 1008016] ex_svd_plane"
  by (simp add: dgesvd_contract_def ex_svd_plane_def orthogonal3_def tr3_explicit mm3_explicit
        diag3_def id3_def)

lemma ex_plane_superposition:
  "fst (superposition_rounded round_double (\<lambda>R. ex_svd_plane) ex_plane_store ex_plane ex_plane)
     = Inr ex_plane_reflection"
proof -
  have l: "length (atoms ex_plane) \<le> length (atoms ex_plane)" by simp
  have i: "s_info ((\<lambda>R. ex_svd_plane) (correlationMatrix ex_plane_store ex_plane ex_plane)) = 0"
    by (simp add: ex_svd_plane_def)
  show ?thesis
    unfolding superposition_rounded_success [OF l i] ex_plane_correlation ex_plane_det_rounded
      ex_plane_centroid
    by (simp add: ex_svd_plane_def adjustU_explicit mm3_explicit compose_explicit ex_plane_reflection_def)
qed

text \<open>
  C2 as stated fails for four atoms in a plane aligned onto themselves. The coordinates
  are small integers, so that every step up to the correlation matrix is exact in
  binary64; that matrix is singular, its determinant is exactly 0, and its cofactor
  expansion evaluated in binary64 is \<open>-32\<close>. With a decomposition that keeps the solver's
  promise, the third column of \<open>U\<close> is negated and the rotation block returned is the
  reflection in the plane of the atoms, of determinant \<open>-1\<close>.
\<close>

theorem reflection_noise_counterexample:
  "correlationMatrix ex_plane_store ex_plane ex_plane
     = [630010, 504008, -252004,  504008, 630010, 252004,  -252004, 252004, 1008016] \<and>
   det3 (correlationMatrix ex_plane_store ex_plane ex_plane) = 0 \<and>
   det_rounded round_double (correlationMatrix ex_plane_store ex_plane ex_plane) = - 32 \<and>
   dgesvd_contract (correlationMatrix ex_plane_store ex_plane ex_plane) ex_svd_plane \<and>
   fst (superposition_rounded round_double (\<lambda>R. ex_svd_plane) ex_plane_store ex_plane ex_plane)
     = Inr ex_plane_reflection \<and>
   rotationPart ex_plane_reflection = [1/9, 8/9, -4/9,  8/9, 1/9, 4/9,  -4/9, 4/9, 7/9] \<and>
   det3 (rotationPart ex_plane_reflection) = - 1"
proof -
  have d: "det3 [630010, 504008, -252004,  504008, 630010, 252004,  -252004, 252004, 1008016] = (0::real)"
    by (simp add: det3_explicit)
  have r: "rotationPart ex_plane_reflection = [1/9, 8/9, -4/9,  8/9, 1/9, 4/9,  -4/9, 4/9, 7/9]"
    by (simp add: rotationPart_def ex_plane_reflection_def)
  have e: "det3 [1/9, 8/9, -4/9,  8/9, 1/9, 4/9,  -4/9, 4/9, 7/9] = (- 1::real)"
    by (simp add: det3_explicit)
  show ?thesis
    unfolding r ex_plane_correlation
    using d e ex_plane_det_rounded ex_plane_contract ex_plane_superposition by simp
qed


section \<open>The DCD writer: properties\<close>


lemma os_write_append: "os_write b (os_write a s) = os_write (a @ b) s"
proof (cases "failbit s")
  case True
  then show ?thesis by (simp add: os_write_def)
next
  case False
  define c where "c = contents s"
  define p where "p = ppos s"
  define pre where "pre = take p (c @ replicate (p - length c) 0)"
  define r where "r = drop (p + length a) c"
  have lp: "length pre = p"
    by (simp add: pre_def)
  define c1 where "c1 = pre @ a @ r"
  have 1: "os_write a s = s\<lparr>contents := c1, ppos := p + length a\<rparr>"
    using False by (simp add: os_write_def pre_def r_def c_def p_def c1_def)
  have 2: "take (p + length a) c1 = pre @ a" "p + length a - length c1 = 0"
    using lp by (simp_all add: c1_def)
  have 3: "drop (p + length a + length b) c1 = drop (p + (length a + length b)) c"
    using lp by (simp add: c1_def r_def add.commute add.left_commute)
  have "os_write b (os_write a s) =
          s\<lparr>contents := (pre @ a) @ b @ drop (p + (length a + length b)) c,
            ppos := p + length a + length b\<rparr>"
    unfolding 1 using False by (simp add: os_write_def 2 3)
  also have "\<dots> = os_write (a @ b) s"
    using False by (simp add: os_write_def pre_def c_def p_def add.assoc)
  finally show ?thesis .
qed

lemma writeF77Line_bytes: "writeF77Line data len s = os_write (f77_bytes data len) s"
  by (simp add: writeF77Line_def f77_bytes_def os_write_append)

lemma writeHeader_bytes: "writeHeader fp w = w\<lparr>ofs := os_write (header_bytes fp w) (ofs w)\<rparr>"
  by (simp add: writeHeader_def Let_def writeF77Line_bytes os_write_append header_bytes_def)

lemma coordinate_record_bytes:
  "coordinate_record fp st grp sel w = w\<lparr>ofs := os_write (coordinate_bytes fp st grp sel w) (ofs w)\<rparr>"
  by (simp add: coordinate_record_def coordinate_bytes_def Let_def writeF77Line_bytes map_concat o_def
        concat_map_singleton)

lemma writeRecords_bytes:
  "writeRecords fp st grp w =
     w\<lparr>ofs := os_write (frame_bytes fp st grp w) (ofs w), current := current w + 1\<rparr>"
  by (cases "periodic_box grp")
     (simp_all add: writeRecords_def Let_def coordinate_record_bytes writeBox_def writeF77Line_bytes
        os_write_append frame_bytes_def coordinate_bytes_def)

lemma rewriteHeader_good:
  assumes "\<not> failbit (ofs w)"
  shows "rewriteHeader fp w =
           w\<lparr>nsteps := nsteps w + 1,
             ofs := \<lparr>contents = header_bytes fp (w\<lparr>nsteps := nsteps w + 1\<rparr>)
                                  @ drop (length (header_bytes fp (w\<lparr>nsteps := nsteps w + 1\<rparr>)))
                                      (contents (ofs w)),
                     ppos = length (header_bytes fp (w\<lparr>nsteps := nsteps w + 1\<rparr>)
                                  @ drop (length (header_bytes fp (w\<lparr>nsteps := nsteps w + 1\<rparr>)))
                                      (contents (ofs w))),
                     failbit = False\<rparr>\<rparr>"
proof -
  have h: "header_bytes fp (w\<lparr>ofs := s, nsteps := n\<rparr>) = header_bytes fp (w\<lparr>nsteps := n\<rparr>)" for s n
    by (simp add: header_bytes_def header_icntrl_def)
  show ?thesis
    using assms
    by (simp add: rewriteHeader_def Let_def writeHeader_bytes os_seekp_def os_seekp_end_def
          os_write_def h)
qed

lemma rewriteHeader_failed:
  assumes "failbit (ofs w)"
  shows "rewriteHeader fp w = w\<lparr>nsteps := nsteps w + 1\<rparr>"
  using assms
  by (simp add: rewriteHeader_def Let_def writeHeader_bytes os_seekp_def os_seekp_end_def os_write_def)

lemma first_frame_fields [simp]:
  "nsteps (first_frame grp w) = nsteps w" "current (first_frame grp w) = current w"
  "ofs (first_frame grp w) = ofs w"
  by (simp_all add: first_frame_def)

lemma writeFrame_accepted:
  assumes "frame_accepted grp w"
  shows "writeFrame fp st grp w =
           (if nsteps w \<le> current w
            then (if failbit (ofs (rewriteHeader fp (first_frame grp w)))
                  then (Some (runtime_error ''Error while re-writing DCD header''),
                        rewriteHeader fp (first_frame grp w))
                  else (None, writeRecords fp st grp (rewriteHeader fp (first_frame grp w))))
            else (None, writeRecords fp st grp (first_frame grp w)))"
  using assms by (auto simp: writeFrame_def frame_accepted_def first_frame_def Let_def)

text \<open>
  C8. When the number of frames written has reached the declared number of frames, a call
  of \<^verbatim>\<open>writeFrame\<close> with an accepted group first seeks to the start of the stream,
  increments the frame count, rewrites the header and seeks back to the end, and only then
  appends the records of the frame. On a stream that has not failed the result holds the
  new header in place of the first bytes, the bytes that followed them unchanged, and the
  records of the new frame after them.
\<close>

theorem writeFrame_extends_header:
  assumes "frame_accepted grp w" and "nsteps w \<le> current w"
  shows "writeFrame fp st grp w =
           (let w1 = first_frame grp w;
                w2 = w1\<lparr>ofs := os_seekp 0 (ofs w1)\<rparr>;
                w3 = w2\<lparr>nsteps := nsteps w2 + 1\<rparr>;
                w4 = writeHeader fp w3;
                w5 = w4\<lparr>ofs := os_seekp_end (ofs w4)\<rparr>
            in if failbit (ofs w5)
               then (Some (runtime_error ''Error while re-writing DCD header''), w5)
               else (None, writeRecords fp st grp w5)) \<and>
         (\<not> failbit (ofs w) \<longrightarrow>
            (let hdr = header_bytes fp ((first_frame grp w)\<lparr>nsteps := nsteps w + 1\<rparr>);
                 w' = snd (writeFrame fp st grp w)
             in fst (writeFrame fp st grp w) = None \<and>
                contents (ofs w') =
                  hdr @ drop (length hdr) (contents (ofs w))
                  @ frame_bytes fp st grp ((first_frame grp w)\<lparr>nsteps := nsteps w + 1\<rparr>) \<and>
                nsteps w' = nsteps w + 1 \<and> current w' = current w + 1))"
proof -
  have seq: "writeFrame fp st grp w =
               (if failbit (ofs (rewriteHeader fp (first_frame grp w)))
                then (Some (runtime_error ''Error while re-writing DCD header''),
                      rewriteHeader fp (first_frame grp w))
                else (None, writeRecords fp st grp (rewriteHeader fp (first_frame grp w))))"
    using assms by (simp add: writeFrame_accepted)
  have 1: "writeFrame fp st grp w =
           (let w1 = first_frame grp w;
                w2 = w1\<lparr>ofs := os_seekp 0 (ofs w1)\<rparr>;
                w3 = w2\<lparr>nsteps := nsteps w2 + 1\<rparr>;
                w4 = writeHeader fp w3;
                w5 = w4\<lparr>ofs := os_seekp_end (ofs w4)\<rparr>
            in if failbit (ofs w5)
               then (Some (runtime_error ''Error while re-writing DCD header''), w5)
               else (None, writeRecords fp st grp w5))"
    unfolding seq by (simp add: rewriteHeader_def Let_def)
  have 2: "fst (writeFrame fp st grp w) = None \<and>
           contents (ofs (snd (writeFrame fp st grp w))) =
             header_bytes fp ((first_frame grp w)\<lparr>nsteps := nsteps w + 1\<rparr>)
             @ drop (length (header_bytes fp ((first_frame grp w)\<lparr>nsteps := nsteps w + 1\<rparr>)))
                 (contents (ofs w))
             @ frame_bytes fp st grp ((first_frame grp w)\<lparr>nsteps := nsteps w + 1\<rparr>) \<and>
           nsteps (snd (writeFrame fp st grp w)) = nsteps w + 1 \<and>
           current (snd (writeFrame fp st grp w)) = current w + 1"
    if good: "\<not> failbit (ofs w)"
  proof -
    have g: "\<not> failbit (ofs (first_frame grp w))" using good by simp
    have f: "frame_bytes fp st grp (w0\<lparr>nsteps := n, ofs := s\<rparr>) = frame_bytes fp st grp (w0\<lparr>nsteps := n\<rparr>)"
      for w0 n s
      by (simp add: frame_bytes_def coordinate_bytes_def)
    show ?thesis
      unfolding seq rewriteHeader_good [OF g]
      by (simp add: writeRecords_bytes os_write_def f)
  qed
  from 1 2 show ?thesis by (simp add: Let_def)
qed

text \<open>
  C9 (as amended). When \<^verbatim>\<open>writeFrame\<close> is called with a non-zero atom count established
  and a group whose size differs from it, or with a group lacking a periodic box when box
  records were established, it throws before writing any byte: the writer (stream
  contents, frames-written counter, atom count, step count, box flag) is returned as it
  was.
\<close>

theorem writeFrame_rejects_unchanged:
  assumes "natoms w \<noteq> 0"
    and "of_nat (length (atoms grp)) \<noteq> natoms w \<or> (has_box w \<and> periodic_box grp = None)"
  shows "\<exists>msg. writeFrame fp st grp w = (Some (runtime_error msg), w)"
  using assms by (auto simp: writeFrame_def)



lemma writeFrame_good:
  assumes "frame_accepted grp w" and "\<not> failbit (ofs w)"
  shows "fst (writeFrame fp st grp w) = None"
    and "natoms (snd (writeFrame fp st grp w)) = natoms (first_frame grp w)"
    and "has_box (snd (writeFrame fp st grp w)) = has_box (first_frame grp w)"
    and "current (snd (writeFrame fp st grp w)) = current w + 1"
    and "nsteps (snd (writeFrame fp st grp w)) = (if nsteps w \<le> current w then nsteps w + 1 else nsteps w)"
    and "\<not> failbit (ofs (snd (writeFrame fp st grp w)))"
proof -
  have g: "\<not> failbit (ofs (first_frame grp w))" using assms(2) by simp
  show "fst (writeFrame fp st grp w) = None"
    and "natoms (snd (writeFrame fp st grp w)) = natoms (first_frame grp w)"
    and "has_box (snd (writeFrame fp st grp w)) = has_box (first_frame grp w)"
    and "current (snd (writeFrame fp st grp w)) = current w + 1"
    and "nsteps (snd (writeFrame fp st grp w)) = (if nsteps w \<le> current w then nsteps w + 1 else nsteps w)"
    and "\<not> failbit (ofs (snd (writeFrame fp st grp w)))"
    using assms(2)
    by (simp_all add: writeFrame_accepted [OF assms(1)] rewriteHeader_good [OF g] writeRecords_bytes
          os_write_def)
qed

lemma ex_writer0_fields:
  "natoms ex_writer0 = 0" "nsteps ex_writer0 = 1" "current ex_writer0 = 1"
  "\<not> has_box ex_writer0" "\<not> failbit (ofs ex_writer0)"
proof -
  have a: "frame_accepted ex_empty new_DCDWriter"
    by (simp add: frame_accepted_def new_DCDWriter_def)
  have g: "\<not> failbit (ofs new_DCDWriter)"
    by (simp add: new_DCDWriter_def)
  show "natoms ex_writer0 = 0" "nsteps ex_writer0 = 1" "current ex_writer0 = 1" "\<not> has_box ex_writer0"
    unfolding ex_writer0_def writeFrame_good [OF a g, of ex_fp ex_store]
    by (simp_all add: first_frame_def new_DCDWriter_def ex_empty_def)
  show "\<not> failbit (ofs ex_writer0)"
    unfolding ex_writer0_def by (rule writeFrame_good(6) [OF a g])
qed

lemma ex_writer2_fields:
  "natoms ex_writer2 = 2" "nsteps ex_writer2 = 1" "current ex_writer2 = 1"
  "\<not> has_box ex_writer2" "\<not> failbit (ofs ex_writer2)"
proof -
  have a: "frame_accepted ex_pair new_DCDWriter"
    by (simp add: frame_accepted_def new_DCDWriter_def)
  have g: "\<not> failbit (ofs new_DCDWriter)"
    by (simp add: new_DCDWriter_def)
  show "natoms ex_writer2 = 2" "nsteps ex_writer2 = 1" "current ex_writer2 = 1" "\<not> has_box ex_writer2"
    unfolding ex_writer2_def writeFrame_good [OF a g, of ex_fp ex_store]
    by (simp_all add: first_frame_def new_DCDWriter_def ex_pair_def)
  show "\<not> failbit (ofs ex_writer2)"
    unfolding ex_writer2_def by (rule writeFrame_good(6) [OF a g])
qed

theorem writeFrame_extends_header_witness:
  "frame_accepted ex_pair ex_writer2 \<and> nsteps ex_writer2 \<le> current ex_writer2 \<and>
   \<not> failbit (ofs ex_writer2) \<and>
   fst (writeFrame ex_fp ex_store ex_pair ex_writer2) = None \<and>
   contents (ofs (snd (writeFrame ex_fp ex_store ex_pair ex_writer2))) =
     header_bytes ex_fp (ex_writer2\<lparr>nsteps := 2\<rparr>)
     @ drop (length (header_bytes ex_fp (ex_writer2\<lparr>nsteps := 2\<rparr>))) (contents (ofs ex_writer2))
     @ frame_bytes ex_fp ex_store ex_pair (ex_writer2\<lparr>nsteps := 2\<rparr>) \<and>
   nsteps (snd (writeFrame ex_fp ex_store ex_pair ex_writer2)) = 2 \<and>
   current (snd (writeFrame ex_fp ex_store ex_pair ex_writer2)) = 2"
proof -
  have a: "frame_accepted ex_pair ex_writer2"
    by (simp add: frame_accepted_def ex_writer2_fields ex_pair_def)
  have b: "nsteps ex_writer2 \<le> current ex_writer2"
    by (simp add: ex_writer2_fields)
  have c: "\<not> failbit (ofs ex_writer2)"
    by (simp add: ex_writer2_fields)
  have f: "first_frame ex_pair ex_writer2 = ex_writer2"
    by (simp add: first_frame_def ex_writer2_fields)
  from writeFrame_extends_header [OF a b, of ex_fp ex_store]
  have "\<not> failbit (ofs ex_writer2) \<longrightarrow>
            (let hdr = header_bytes ex_fp ((first_frame ex_pair ex_writer2)\<lparr>nsteps := nsteps ex_writer2 + 1\<rparr>);
                 w' = snd (writeFrame ex_fp ex_store ex_pair ex_writer2)
             in fst (writeFrame ex_fp ex_store ex_pair ex_writer2) = None \<and>
                contents (ofs w') =
                  hdr @ drop (length hdr) (contents (ofs ex_writer2))
                  @ frame_bytes ex_fp ex_store ex_pair ((first_frame ex_pair ex_writer2)\<lparr>nsteps := nsteps ex_writer2 + 1\<rparr>) \<and>
                nsteps w' = nsteps ex_writer2 + 1 \<and> current w' = current ex_writer2 + 1)"
    by (rule conjunct2)
  with c have "fst (writeFrame ex_fp ex_store ex_pair ex_writer2) = None \<and>
   contents (ofs (snd (writeFrame ex_fp ex_store ex_pair ex_writer2))) =
     header_bytes ex_fp (ex_writer2\<lparr>nsteps := 2\<rparr>)
     @ drop (length (header_bytes ex_fp (ex_writer2\<lparr>nsteps := 2\<rparr>))) (contents (ofs ex_writer2))
     @ frame_bytes ex_fp ex_store ex_pair (ex_writer2\<lparr>nsteps := 2\<rparr>) \<and>
   nsteps (snd (writeFrame ex_fp ex_store ex_pair ex_writer2)) = 2 \<and>
   current (snd (writeFrame ex_fp ex_store ex_pair ex_writer2)) = 2"
    by (simp add: Let_def f ex_writer2_fields)
  with a b c show ?thesis by simp
qed

theorem writeFrame_rejects_unchanged_witness:
  "natoms ex_writer2 \<noteq> 0 \<and> of_nat (length (atoms ex_single)) \<noteq> natoms ex_writer2 \<and>
   (\<exists>msg. writeFrame ex_fp ex_store ex_single ex_writer2 = (Some (runtime_error msg), ex_writer2))"
proof -
  have a: "natoms ex_writer2 \<noteq> 0"
    by (simp add: ex_writer2_fields)
  have b: "of_nat (length (atoms ex_single)) \<noteq> natoms ex_writer2"
    by (simp add: ex_writer2_fields ex_single_def)
  show ?thesis
    using writeFrame_rejects_unchanged [OF a, of ex_single ex_fp ex_store] a b by simp
qed

text \<open>
  C9 as stated fails after a first frame of the empty group: the atom count is still 0,
  which the code takes to mean that no frame has been written, so the next call with a
  group of one atom does not throw; it changes the atom count, the step count and the
  frames-written counter.
\<close>

theorem writeFrame_empty_first_frame_counterexample:
  "framesWritten ex_writer0 = 1 \<and> natoms ex_writer0 = 0 \<and>
   of_nat (length (atoms ex_single)) \<noteq> natoms ex_writer0 \<and>
   fst (writeFrame ex_fp ex_store ex_single ex_writer0) = None \<and>
   natoms (snd (writeFrame ex_fp ex_store ex_single ex_writer0)) = 1 \<and>
   nsteps (snd (writeFrame ex_fp ex_store ex_single ex_writer0)) = 2 \<and>
   framesWritten (snd (writeFrame ex_fp ex_store ex_single ex_writer0)) = 2"
proof -
  have a: "frame_accepted ex_single ex_writer0"
    by (simp add: frame_accepted_def ex_writer0_fields)
  have g: "\<not> failbit (ofs ex_writer0)"
    by (simp add: ex_writer0_fields)
  show ?thesis
    unfolding framesWritten_def writeFrame_good [OF a g, of ex_fp ex_store]
    by (simp add: ex_writer0_fields first_frame_def ex_single_def)
qed


section \<open>Alignment: properties\<close>


lemma transformAtom_same: "transformAtom W s a a = (s a)\<lparr>coords := gm_apply W (coords (s a))\<rparr>"
  by (simp add: transformAtom_def)

lemma transformAtom_other: "b \<noteq> a \<Longrightarrow> transformAtom W s a b = s b"
  by (simp add: transformAtom_def)

lemma applyTransform_other:
  "a \<notin> set as \<Longrightarrow> foldl (transformAtom W) st as a = st a"
  by (induction as arbitrary: st) (simp_all add: transformAtom_other)

lemma applyTransform_mass:
  "mass (foldl (transformAtom W) st as a) = mass (st a)"
proof (induction as arbitrary: st)
  case Nil
  show ?case by simp
next
  case (Cons b as)
  have "mass (transformAtom W st b a) = mass (st a)"
    by (cases "a = b") (simp_all add: transformAtom_same transformAtom_other)
  then show ?case by (simp add: Cons.IH)
qed

lemma applyTransform_member:
  "distinct as \<Longrightarrow> a \<in> set as \<Longrightarrow>
   coords (foldl (transformAtom W) st as a) = gm_apply W (coords (st a))"
proof (induction as arbitrary: st)
  case Nil
  then show ?case by simp
next
  case (Cons b as)
  show ?case
  proof (cases "a = b")
    case True
    with Cons.prems have "a \<notin> set as" by simp
    then have "foldl (transformAtom W) (transformAtom W st b) as a = transformAtom W st b a"
      by (rule applyTransform_other)
    then show ?thesis using True by (simp add: transformAtom_same)
  next
    case False
    with Cons.prems have "distinct as" "a \<in> set as" by simp_all
    then have "coords (foldl (transformAtom W) (transformAtom W st b) as a)
                 = gm_apply W (coords (transformAtom W st b a))"
      by (rule Cons.IH)
    then show ?thesis using False by (simp add: transformAtom_other)
  qed
qed

lemma superposition_store: "snd (superposition dgesvd st g grp) = st"
  by (simp add: superposition_def Let_def)

lemma alignOnto_cases:
  "alignOnto dgesvd st g grp =
     (case fst (superposition dgesvd st g grp) of
        Inl e \<Rightarrow> (Inl e, st)
      | Inr M \<Rightarrow> (Inr M, applyTransform st g M))"
proof (cases "superposition dgesvd st g grp")
  case (Pair r st')
  with superposition_store [of dgesvd st g grp] have "st' = st" by simp
  with Pair show ?thesis
    by (simp add: alignOnto_def split: sum.splits)
qed

text \<open>
  C10. \<^verbatim>\<open>superposition\<close> leaves the store as it was: the coordinates of the members of
  both groups are unchanged, it works on extracted copies. The coordinates change in
  \<^verbatim>\<open>alignOnto\<close> only, on success, where the computed transform is applied to the members of
  the moving group: masses and atoms outside the moving group stay as they were, and each
  member of a moving group without repeated atoms gets the image of its coordinate.
\<close>

theorem superposition_leaves_coordinates:
  "snd (superposition dgesvd st g grp) = st \<and>
   alignOnto dgesvd st g grp =
     (case fst (superposition dgesvd st g grp) of
        Inl e \<Rightarrow> (Inl e, st)
      | Inr M \<Rightarrow> (Inr M, applyTransform st g M)) \<and>
   (\<forall>a. mass (applyTransform st g M a) = mass (st a)) \<and>
   (\<forall>a. a \<notin> set (atoms g) \<longrightarrow> applyTransform st g M a = st a) \<and>
   (distinct (atoms g) \<longrightarrow>
      (\<forall>a \<in> set (atoms g). coords (applyTransform st g M a) = gm_apply M (coords (st a))))"
  using alignOnto_cases [of dgesvd st g grp]
  by (simp add: superposition_store applyTransform_def applyTransform_other applyTransform_mass
        applyTransform_member)

lemma ex_positions:
  "positions ex_store ex_cross = [GCoord 1 0 0, GCoord (-1) 0 0, GCoord 0 2 0, GCoord 0 (-2) 0]"
  "positions ex_store ex_tetra = [GCoord 1 1 1, GCoord 1 (-1) (-1), GCoord (-1) 1 (-1), GCoord (-1) (-1) 1]"
  "positions ex_store ex_turned = [GCoord 0 3 4, GCoord 2 3 2, GCoord 0 1 2, GCoord 2 1 4]"
  by (simp_all add: positions_def ex_cross_def ex_tetra_def ex_turned_def ex_store_def ex_points_def)

theorem superposition_leaves_coordinates_witness:
  "snd (superposition (\<lambda>R. ex_svd_turned) ex_store ex_tetra ex_turned) = ex_store \<and>
   fst (alignOnto (\<lambda>R. ex_svd_turned) ex_store ex_tetra ex_turned)
     = Inr [0, -1, 0, 1,  1, 0, 0, 2,  0, 0, 1, 3,  0, 0, 0, 1] \<and>
   distinct (atoms ex_tetra) \<and> 4 \<in> set (atoms ex_tetra) \<and> 8 \<notin> set (atoms ex_tetra) \<and>
   coords (snd (alignOnto (\<lambda>R. ex_svd_turned) ex_store ex_tetra ex_turned) 4) = GCoord 0 3 4 \<and>
   snd (alignOnto (\<lambda>R. ex_svd_turned) ex_store ex_tetra ex_turned) 8 = ex_store 8"
proof -
  define M :: GMatrix where "M = [0, -1, 0, 1,  1, 0, 0, 2,  0, 0, 1, 3,  0, 0, 0, 1]"
  have s: "fst (superposition (\<lambda>R. ex_svd_turned) ex_store ex_tetra ex_turned) = Inr M"
    unfolding M_def by code_simp
  have d: "distinct (atoms ex_tetra)" "4 \<in> set (atoms ex_tetra)" "8 \<notin> set (atoms ex_tetra)"
    by (simp_all add: ex_tetra_def)
  have c: "gm_apply M (coords (ex_store 4)) = GCoord 0 3 4"
    unfolding M_def by code_simp
  note t = superposition_leaves_coordinates [of "\<lambda>R. ex_svd_turned" ex_store ex_tetra ex_turned M]
  from t have 1: "snd (superposition (\<lambda>R. ex_svd_turned) ex_store ex_tetra ex_turned) = ex_store"
    by simp
  from t s have 2: "alignOnto (\<lambda>R. ex_svd_turned) ex_store ex_tetra ex_turned
                      = (Inr M, applyTransform ex_store ex_tetra M)"
    by simp
  from t d have 3: "coords (applyTransform ex_store ex_tetra M 4) = gm_apply M (coords (ex_store 4))"
    by blast
  from t d have 4: "applyTransform ex_store ex_tetra M 8 = ex_store 8"
    by blast
  show ?thesis
    using 1 2 3 4 c d by (simp add: M_def)
qed


subsection \<open>Aligning a point set onto a copy of itself\<close>
















lemma centroid_positions:
  "positions st g = positions st' g' \<Longrightarrow> centroid st g = centroid st' g'"
proof -
  assume p: "positions st g = positions st' g'"
  then have "length (positions st g) = length (positions st' g')" by simp
  then have "length (atoms g) = length (atoms g')" by (simp add: positions_def)
  with p show ?thesis by (simp add: centroid_def)
qed

lemma centeredCoords_positions:
  "positions st g = positions st' g' \<Longrightarrow> centeredCoords st g = centeredCoords st' g'"
  by (simp add: centeredCoords_def transformedCoordsAsArray_def centroid_positions [of st g st' g'])

lemma length_positions [simp]: "length (positions st g) = length (atoms g)"
  by (simp add: positions_def)


















subsection \<open>Iterative alignment of identical members\<close>



lemma referenceGroup_atoms:
  "atoms (referenceGroup ens n) =
     [Suc (foldl max 0 (concat (map atoms ens))) ..< Suc (foldl max 0 (concat (map atoms ens))) + n]"
  by (simp add: referenceGroup_def Let_def)

lemma referenceGroup_length [simp]: "length (atoms (referenceGroup ens n)) = n"
  by (simp add: referenceGroup_atoms)

lemma referenceGroup_distinct [simp]: "distinct (atoms (referenceGroup ens n))"
  by (simp add: referenceGroup_atoms)


















lemma correlationMatrix_positions:
  assumes "positions st g = positions st' g'" and "positions st grp = positions st' grp'"
  shows "correlationMatrix st g grp = correlationMatrix st' g' grp'"
proof -
  have "length (atoms g) = length (atoms g')"
    using assms(1) length_positions [of st g] length_positions [of st' g'] by simp
  then show ?thesis
    by (simp add: correlationMatrix_def centeredCoords_positions [OF assms(1)]
          centeredCoords_positions [OF assms(2)])
qed










end
